theory Spec2Isabelle
  imports Complex_Main
begin

section \<open>Python values and exceptions\<close>

text \<open>
  Every exception the modelled code can raise is a value.  A function that can raise
  returns \<open>error + 'a\<close>, with \<open>Inl\<close> for the exception that propagates.
\<close>

datatype error =
    IndexError
  | KeyError string
  | ValueError
  | TypeError
  | AssertionError string
  | FileNotFoundError string
  | LibraryError string

text \<open>Python's \<open>xs[i]\<close> for a non-negative literal index.\<close>

definition index :: "'a list \<Rightarrow> nat \<Rightarrow> error + 'a" where
  "index xs i = (if i < length xs then Inr (xs ! i) else Inl IndexError)"

text \<open>
  Python's \<open>s.split(c)\<close> for a one-character separator: the pieces between the
  occurrences of \<open>c\<close>, one more piece than there are occurrences.
\<close>

fun split :: "char \<Rightarrow> string \<Rightarrow> string list" where
  "split c [] = [[]]"
| "split c (x # xs) =
     (if x = c then [] # split c xs
      else (case split c xs of
              [] \<Rightarrow> [[x]]
            | p # ps \<Rightarrow> (x # p) # ps))"

section \<open>main.py: name parsing\<close>

text \<open>
  \<^verbatim>\<open>extract_lastname = lambda x: x.split(',')[0]\<close>
\<close>

definition extract_lastname :: "string \<Rightarrow> error + string" where
  "extract_lastname x = index (split CHR '','' x) 0"

text \<open>
  \<^verbatim>\<open>
  def extract_title(x):
      title = x.split(',')[1].split('.')[0][1:]
      if title in ['Mlle', 'Ms']:
          title = 'Miss'
      elif title == 'Mme':
          title = 'Mrs'
      elif title in ['Rev', 'Dr', 'Major', 'Col', 'Capt', 'Jonkheer', 'Dona']:
          title = 'Esteemed'
      elif title in ['Don', 'Lady', 'Sir', 'the Countess']:
          title = 'Royalty'
      return title
  \<close>
\<close>

definition extract_title :: "string \<Rightarrow> error + string" where
  "extract_title x =
     (case index (split CHR '','' x) 1 of
        Inl e \<Rightarrow> Inl e
      | Inr after_comma \<Rightarrow>
          (case index (split CHR ''.'' after_comma) 0 of
             Inl e \<Rightarrow> Inl e
           | Inr before_period \<Rightarrow>
               (let title = drop 1 before_period in
                Inr (if title \<in> set [''Mlle'', ''Ms''] then ''Miss''
                     else if title = ''Mme'' then ''Mrs''
                     else if title \<in> set [''Rev'', ''Dr'', ''Major'', ''Col'', ''Capt'',
                                            ''Jonkheer'', ''Dona''] then ''Esteemed''
                     else if title \<in> set [''Don'', ''Lady'', ''Sir'', ''the Countess'']
                       then ''Royalty''
                     else title))))"


section \<open>Sequencing calls that can raise\<close>

text \<open>
  \<open>and_then m f\<close> runs \<open>f\<close> on the value of \<open>m\<close>, unless \<open>m\<close> raised: then the
  exception propagates and \<open>f\<close> is not run.  \<open>traverse f xs\<close> applies \<open>f\<close> to the
  elements from left to right and stops at the first exception.
\<close>

definition and_then :: "error + 'a \<Rightarrow> ('a \<Rightarrow> error + 'b) \<Rightarrow> error + 'b" where
  "and_then m f = (case m of Inl e \<Rightarrow> Inl e | Inr x \<Rightarrow> f x)"

fun traverse :: "('a \<Rightarrow> error + 'b) \<Rightarrow> 'a list \<Rightarrow> error + 'b list" where
  "traverse f [] = Inr []"
| "traverse f (x # xs) =
     and_then (f x) (\<lambda>y. and_then (traverse f xs) (\<lambda>ys. Inr (y # ys)))"

section \<open>Data frames\<close>

text \<open>
  A cell of a data frame or of a CSV file: \<open>Int64\<close> holds the value of a 64-bit
  integer, \<open>Float64\<close> the value of a finite float (every finite float is a rational
  number), \<open>PInf\<close> and \<open>NInf\<close> are the two IEEE infinities, \<open>NaN\<close> is the missing
  value, \<open>Str\<close> is a Python string.

  A frame is its header (the column names, in order) and its rows; in a well-formed
  frame every row has one cell per column.  The row labels of a frame are not modelled:
  the code reads rows by position only.  A matrix (a two-dimensional array) is the list
  of its rows; a matrix with no rows does not record its width.
\<close>

datatype cell = NaN | Int64 int | Float64 rat | PInf | NInf | Str string

type_synonym matrix = "cell list list"

record frame =
  header :: "string list"
  rows :: "matrix"

definition wf_frame :: "frame \<Rightarrow> bool" where
  "wf_frame f = list_all (\<lambda>r. length r = length (header f)) (rows f)"

text \<open>The position of the first column named \<open>c\<close>.\<close>

fun position :: "string list \<Rightarrow> string \<Rightarrow> nat option" where
  "position [] c = None"
| "position (h # hs) c = (if h = c then Some 0 else map_option Suc (position hs c))"

text \<open>\<^verbatim>\<open>data[c]\<close>: the column named \<open>c\<close>, or KeyError.\<close>

definition getitem :: "frame \<Rightarrow> string \<Rightarrow> error + cell list" where
  "getitem f c =
     (case position (header f) c of
        None \<Rightarrow> Inl (KeyError c)
      | Some j \<Rightarrow> Inr (map (\<lambda>r. r ! j) (rows f)))"

text \<open>
  \<^verbatim>\<open>data.assign(c=values)\<close> and \<^verbatim>\<open>data[c] = values\<close> for an array or a list of
  values: the column \<open>c\<close> is replaced where it stands, or added as the last column.
  pandas raises ValueError when there is not one value per row; a frame that has no
  rows takes its rows from the values, with NaN in the columns it had.
\<close>

definition assign :: "frame \<Rightarrow> string \<Rightarrow> cell list \<Rightarrow> error + frame" where
  "assign f c vs =
     (let base = (if rows f = [] then replicate (length vs) (replicate (length (header f)) NaN)
                  else rows f)
      in if length vs \<noteq> length base then Inl ValueError
         else (case position (header f) c of
                 None \<Rightarrow> Inr \<lparr>header = header f @ [c],
                              rows = map (\<lambda>(r, v). r @ [v]) (zip base vs)\<rparr>
               | Some j \<Rightarrow> Inr \<lparr>header = header f,
                                rows = map (\<lambda>(r, v). r[j := v]) (zip base vs)\<rparr>))"

text \<open>\<^verbatim>\<open>data.assign(c=v)\<close> for a scalar \<open>v\<close>: every row gets \<open>v\<close>.\<close>

definition assign_scalar :: "frame \<Rightarrow> string \<Rightarrow> cell \<Rightarrow> error + frame" where
  "assign_scalar f c v = assign f c (replicate (length (rows f)) v)"

text \<open>\<^verbatim>\<open>data[[c1, c2, ...]]\<close>: the frame of the named columns, or KeyError.\<close>

definition select :: "frame \<Rightarrow> string list \<Rightarrow> error + frame" where
  "select f cs =
     and_then (traverse (\<lambda>c. case position (header f) c of
                               None \<Rightarrow> Inl (KeyError c)
                             | Some j \<Rightarrow> Inr j) cs) (\<lambda>js.
     Inr \<lparr>header = cs, rows = map (\<lambda>r. map (\<lambda>j. r ! j) js) (rows f)\<rparr>)"

text \<open>
  \<^verbatim>\<open>data.drop(cs, axis=1)\<close>: the frame without the columns named in \<open>cs\<close>.  A name
  that is no column raises (KeyError; ValueError in pandas before 0.21).
\<close>

definition drop_columns :: "frame \<Rightarrow> string list \<Rightarrow> error + frame" where
  "drop_columns f cs =
     (case find (\<lambda>c. c \<notin> set (header f)) cs of
        Some c \<Rightarrow> Inl (KeyError c)
      | None \<Rightarrow>
          Inr \<lparr>header = filter (\<lambda>h. h \<notin> set cs) (header f),
               rows = map (\<lambda>r. map snd (filter (\<lambda>(h, v). h \<notin> set cs) (zip (header f) r)))
                        (rows f)\<rparr>)"

text \<open>\<^verbatim>\<open>pd.DataFrame(array, columns=cs)\<close>: ValueError unless every row has one value per name.\<close>

definition DataFrame :: "matrix \<Rightarrow> string list \<Rightarrow> error + frame" where
  "DataFrame m cs =
     (if list_all (\<lambda>r. length r = length cs) m then Inr \<lparr>header = cs, rows = m\<rparr>
      else Inl ValueError)"

text \<open>\<^verbatim>\<open>isnull\<close>: NaN is the missing value; an infinity is not missing.\<close>

definition isnull :: "cell \<Rightarrow> bool" where
  "isnull c = (c = NaN)"

text \<open>\<^verbatim>\<open>data.isnull().sum().sum()\<close>: the number of missing cells of the frame.\<close>

definition count_null :: "frame \<Rightarrow> nat" where
  "count_null f = sum_list (map (\<lambda>r. length (filter isnull r)) (rows f))"

subsection \<open>Elementwise operations\<close>


fun gt_num :: "cell \<Rightarrow> int \<Rightarrow> error + bool" where
  "gt_num (Int64 i) k = Inr (k < i)"
| "gt_num (Float64 r) k = Inr (of_int k < r)"
| "gt_num PInf k = Inr True"
| "gt_num NInf k = Inr False"
| "gt_num NaN k = Inr False"
| "gt_num (Str s) k = Inl TypeError"


text \<open>\<^verbatim>\<open>np.where(cond, x, y)\<close> for two integer literals: an array of 64-bit integers.\<close>

definition np_where :: "bool list \<Rightarrow> int \<Rightarrow> int \<Rightarrow> cell list" where
  "np_where cond x y = map (\<lambda>b. if b then Int64 x else Int64 y) cond"

text \<open>The value a 64-bit signed integer holds after an operation whose exact result is \<open>x\<close>.\<close>

definition wrap64 :: "int \<Rightarrow> int" where
  "wrap64 x = (x + 2 ^ 63) mod 2 ^ 64 - 2 ^ 63"

text \<open>
  \<^verbatim>\<open>x + y\<close> on two cells.  Integers wrap around; the rounding of a float sum is not
  modelled (the code adds integer columns only).  On two strings \<open>+\<close> concatenates; a
  string and a number raise TypeError.
\<close>

fun add_cell :: "cell \<Rightarrow> cell \<Rightarrow> error + cell" where
  "add_cell (Int64 a) (Int64 b) = Inr (Int64 (wrap64 (a + b)))"
| "add_cell (Int64 a) (Float64 b) = Inr (Float64 (of_int a + b))"
| "add_cell (Float64 a) (Int64 b) = Inr (Float64 (a + of_int b))"
| "add_cell (Float64 a) (Float64 b) = Inr (Float64 (a + b))"
| "add_cell (Str a) (Str b) = Inr (Str (a @ b))"
| "add_cell (Str a) _ = Inl TypeError"
| "add_cell _ (Str b) = Inl TypeError"
| "add_cell NaN _ = Inr NaN"
| "add_cell _ NaN = Inr NaN"
| "add_cell PInf NInf = Inr NaN"
| "add_cell NInf PInf = Inr NaN"
| "add_cell PInf _ = Inr PInf"
| "add_cell _ PInf = Inr PInf"
| "add_cell NInf _ = Inr NInf"
| "add_cell _ NInf = Inr NInf"

text \<open>
  \<^verbatim>\<open>column + array\<close>, elementwise.  numpy broadcasts an array of one element over the
  column; any other difference of lengths raises ValueError.
\<close>

definition add_columns :: "cell list \<Rightarrow> cell list \<Rightarrow> error + cell list" where
  "add_columns xs ys =
     (if length ys = length xs then traverse (\<lambda>(x, y). add_cell x y) (zip xs ys)
      else if length ys = 1 then traverse (\<lambda>x. add_cell x (ys ! 0)) xs
      else Inl ValueError)"

section \<open>main.py: the AloneRightPlace feature\<close>


subsection \<open>Inputs of the feature\<close>

text \<open>A numeric cell: a number, an infinity or NaN, anything but a string.\<close>

fun numeric :: "cell \<Rightarrow> bool" where
  "numeric (Str s) = False"
| "numeric _ = True"

text \<open>
  Four passengers: alone in third class (female), in a family in second class (male),
  alone in second class (male), and one whose family size is missing.
\<close>

definition passengers :: frame where
  "passengers = \<lparr>header = [''FamSize'', ''Sex'', ''Pclass_2'', ''Pclass_3''],
      rows = [[Int64 1, Int64 0, Int64 0, Int64 1],
              [Int64 3, Int64 1, Int64 1, Int64 0],
              [Int64 1, Int64 1, Int64 1, Int64 0],
              [NaN, Int64 1, Int64 1, Int64 0]]\<rparr>"

section \<open>Files and the libraries\<close>

text \<open>
  The file system maps a path to the table a CSV file holds; parsing and printing the
  text of a CSV file are the tabular library's and are not modelled.
  \<^verbatim>\<open>pd.read_csv(path)\<close> raises when there is no such file.
  \<^verbatim>\<open>frame.to_csv(path, index=False)\<close> writes the columns of the frame;
  with \<^verbatim>\<open>index=True\<close> the row labels would be written as a first, unnamed column.
\<close>

type_synonym files = "string \<rightharpoonup> frame"

definition read_csv :: "files \<Rightarrow> string \<Rightarrow> error + frame" where
  "read_csv fs path =
     (case fs path of None \<Rightarrow> Inl (FileNotFoundError path) | Some f \<Rightarrow> Inr f)"

definition to_csv :: "files \<Rightarrow> frame \<Rightarrow> string \<Rightarrow> bool \<Rightarrow> files" where
  "to_csv fs f path with_index =
     fs(path \<mapsto>
        (if with_index
         then \<lparr>header = [] # header f,
               rows = map (\<lambda>(i, r). Int64 (int i) # r) (enumerate 0 (rows f))\<rparr>
         else f))"

text \<open>
  The statistical library is a parameter of the model: a record of the functions the
  code calls, over the library's own type \<open>'m\<close> of classifier objects.
  \<^item> \<open>fit m X y\<close> is \<^verbatim>\<open>m.fit(X, y)\<close>: the fitted classifier, or the exception raised;
  \<^item> \<open>predict m X\<close> is \<^verbatim>\<open>m.predict(X)\<close>, an array of labels;
  \<^item> \<open>predict_proba m X\<close> is \<^verbatim>\<open>m.predict_proba(X)\<close>, a matrix with a row per row of \<open>X\<close>;
  \<^item> \<open>VotingClassifier estimators voting weights\<close> and \<open>MLPClassifier hidden_layer_sizes\<close>
    construct classifiers;
  \<^item> \<open>kfold_split n X y\<close> is \<^verbatim>\<open>StratifiedKFold(n_splits=n).split(X, y)\<close>, the list of
    the folds, each a pair of row numbers (train, test);
  \<^item> \<open>train_test_split X y test_size random_state\<close> gives
    \<^verbatim>\<open>(X_train, X_test, y_train, y_test)\<close>;
  \<^item> \<open>row_mean\<close> is the mean of one row of a float matrix (\<^verbatim>\<open>.mean(1)\<close>, row by row).
\<close>

datatype voting_kind = Hard | Soft

record 'm sklearn =
  fit :: "'m \<Rightarrow> matrix \<Rightarrow> int list \<Rightarrow> error + 'm"
  predict :: "'m \<Rightarrow> matrix \<Rightarrow> error + int list"
  predict_proba :: "'m \<Rightarrow> matrix \<Rightarrow> error + matrix"
  VotingClassifier :: "(string option \<times> 'm) list \<Rightarrow> voting_kind \<Rightarrow> int list option \<Rightarrow> 'm"
  MLPClassifier :: "nat \<Rightarrow> 'm"
  kfold_split :: "nat \<Rightarrow> matrix \<Rightarrow> int list \<Rightarrow> error + (nat list \<times> nat list) list"
  train_test_split ::
    "matrix \<Rightarrow> int list \<Rightarrow> rat \<Rightarrow> int \<Rightarrow> error + (matrix \<times> matrix \<times> int list \<times> int list)"
  row_mean :: "cell list \<Rightarrow> cell"

section \<open>main.py: ensembles and the submission file\<close>

text \<open>
  \<^verbatim>\<open>
  def majority_vote_ensemble(name, models_votes, train, outcomes, to_predict):
      model_results = []
      for model, votes in models_votes:
          model.fit(np.array(train), outcomes)
          probs = model.predict(np.array(to_predict))
          probs[probs == 0] = -1
          model_results.append((probs, votes))

      ensemble = pd.read_csv('data/test.csv')[['PassengerId']].assign(
          Survived=0)

      for probs, votes in model_results:
          for i in range(0, votes):
              ensemble = ensemble.assign(Survived=lambda x: x.Survived + probs)

      (ensemble.assign(Survived=lambda x: np.where(x.Survived > 0, 1, 0))
       .to_csv(name, index=False))

      return None
  \<close>
  \<open>fit\<close> changes the caller's classifier objects, so the fitted classifiers are returned
  with the new file system.
\<close>

definition fit_predict ::
  "'m sklearn \<Rightarrow> frame \<Rightarrow> int list \<Rightarrow> frame \<Rightarrow> 'm \<times> int \<Rightarrow> error + ('m \<times> int list \<times> int)" where
  "fit_predict lib train outcomes to_predict mv =
     (case mv of (model, votes) \<Rightarrow>
        and_then (fit lib model (rows train) outcomes) (\<lambda>model.
        and_then (predict lib model (rows to_predict)) (\<lambda>probs.
        Inr (model, map (\<lambda>p. if p = 0 then - 1 else p) probs, votes))))"

fun add_votes :: "frame \<Rightarrow> int list \<Rightarrow> nat \<Rightarrow> error + frame" where
  "add_votes ensemble probs 0 = Inr ensemble"
| "add_votes ensemble probs (Suc n) =
     and_then (getitem ensemble ''Survived'') (\<lambda>survived.
     and_then (add_columns survived (map Int64 probs)) (\<lambda>total.
     and_then (assign ensemble ''Survived'' total) (\<lambda>ensemble.
     add_votes ensemble probs n)))"

fun tally :: "frame \<Rightarrow> ('m \<times> int list \<times> int) list \<Rightarrow> error + frame" where
  "tally ensemble [] = Inr ensemble"
| "tally ensemble ((model, probs, votes) # model_results) =
     and_then (add_votes ensemble probs (nat votes)) (\<lambda>ensemble.
     tally ensemble model_results)"

definition majority_vote_ensemble ::
  "'m sklearn \<Rightarrow> files \<Rightarrow> string \<Rightarrow> ('m \<times> int) list \<Rightarrow> frame \<Rightarrow> int list \<Rightarrow> frame
     \<Rightarrow> error + ('m list \<times> files)" where
  "majority_vote_ensemble lib fs name models_votes train outcomes to_predict =
     and_then (traverse (fit_predict lib train outcomes to_predict) models_votes) (\<lambda>model_results.
     and_then (read_csv fs ''data/test.csv'') (\<lambda>test_csv.
     and_then (select test_csv [''PassengerId'']) (\<lambda>ids.
     and_then (assign_scalar ids ''Survived'' (Int64 0)) (\<lambda>ensemble.
     and_then (tally ensemble model_results) (\<lambda>ensemble.
     and_then (getitem ensemble ''Survived'') (\<lambda>survived.
     and_then (traverse (\<lambda>c. gt_num c 0) survived) (\<lambda>positive.
     and_then (assign ensemble ''Survived'' (np_where positive 1 0)) (\<lambda>ensemble.
     Inr (map fst model_results, to_csv fs ensemble name False)))))))))"

text \<open>
  The weighted majority vote on record \<open>i\<close>, as the docstring of
  \<^verbatim>\<open>majority_vote_ensemble\<close> has it: every classifier's prediction for the record,
  with \<open>-1\<close> for the label 0, counts as many times as the classifier has votes, and
  the record survives when the sum, a 64-bit integer, is positive.
\<close>

definition weighted_vote :: "('m \<times> int list \<times> int) list \<Rightarrow> nat \<Rightarrow> int" where
  "weighted_vote model_results i =
     (if 0 < wrap64 (\<Sum>(model, probs, votes) \<leftarrow> model_results. int (nat votes) * probs ! i)
      then 1 else 0)"

text \<open>
  \<^verbatim>\<open>
  def vote_classifier(output_file_name, models, train, y, test, weights=None):
      voting_classifier = VotingClassifier(estimators=models, voting='hard')
      voting_classifier = voting_classifier.fit(train, y)

      ensemble = pd.read_csv('data/test.csv')[['PassengerId']].assign(
          Survived=voting_classifier.predict(test))

      ensemble.to_csv(output_file_name, index=False)
      return None
  \<close>
  The argument \<open>weights\<close> is not used.  The library's voting classifier fits copies of its
  estimators, so the caller's classifier objects do not change.
\<close>

definition vote_classifier ::
  "'m sklearn \<Rightarrow> files \<Rightarrow> string \<Rightarrow> (string \<times> 'm) list \<Rightarrow> frame \<Rightarrow> int list \<Rightarrow> frame
     \<Rightarrow> int list option \<Rightarrow> error + files" where
  "vote_classifier lib fs output_file_name models train y test weights =
     and_then (fit lib (VotingClassifier lib (map (\<lambda>(name, m). (Some name, m)) models) Hard None)
                 (rows train) y) (\<lambda>voting_classifier.
     and_then (read_csv fs ''data/test.csv'') (\<lambda>test_csv.
     and_then (select test_csv [''PassengerId'']) (\<lambda>ids.
     and_then (predict lib voting_classifier (rows test)) (\<lambda>predictions.
     and_then (assign ids ''Survived'' (map Int64 predictions)) (\<lambda>ensemble.
     Inr (to_csv fs ensemble output_file_name False))))))"

section \<open>main.py: imputation\<close>

text \<open>
  \<^verbatim>\<open>
  def impute(data):
      impute_missing = data.drop(['Survived', 'Train'], axis=1)
      impute_missing_cols = list(impute_missing)

      filled_soft = fancyimpute.MICE().complete(np.array(impute_missing))

      results = pd.DataFrame(filled_soft, columns=impute_missing_cols)
      results['Train'] = list(data['Train'])
      results['Survived'] = list(data['Survived'])
      assert results.isnull().sum().sum() == 0, 'Not all NAs removed'

      return results
  \<close>
  The imputation library is the parameter \<open>MICE_complete\<close>: \<^verbatim>\<open>MICE().complete(array)\<close> draws
  from the random number generator of the process, whose state \<open>'g\<close> it takes and
  returns with the filled matrix.
\<close>

definition impute ::
  "('g \<Rightarrow> matrix \<Rightarrow> error + (matrix \<times> 'g)) \<Rightarrow> 'g \<Rightarrow> frame \<Rightarrow> error + (frame \<times> 'g)" where
  "impute MICE_complete g data =
     and_then (drop_columns data [''Survived'', ''Train'']) (\<lambda>impute_missing.
     and_then (MICE_complete g (rows impute_missing)) (\<lambda>(filled_soft, g').
     and_then (DataFrame filled_soft (header impute_missing)) (\<lambda>results.
     and_then (getitem data ''Train'') (\<lambda>train.
     and_then (assign results ''Train'' train) (\<lambda>results.
     and_then (getitem data ''Survived'') (\<lambda>survived.
     and_then (assign results ''Survived'' survived) (\<lambda>results.
     if count_null results = 0 then Inr (results, g')
     else Inl (AssertionError ''Not all NAs removed''))))))))"

subsection \<open>Inputs of the imputation\<close>

text \<open>
  An imputer that fills every missing cell with 0.0 and draws no random number, the
  combined frame of two training records and one test record, the same frame once
  filled, and a frame whose CSV file had no Survived column.
\<close>

definition zero_imputer :: "unit \<Rightarrow> matrix \<Rightarrow> error + (matrix \<times> unit)" where
  "zero_imputer g m = Inr (map (map (\<lambda>c. if isnull c then Float64 0 else c)) m, g)"

definition combined :: frame where
  "combined = \<lparr>header = [''Survived'', ''Sex'', ''Age'', ''Train''],
      rows = [[Int64 1, Int64 0, Float64 38, Int64 1],
              [Int64 0, Int64 1, NaN, Int64 1],
              [Int64 (- 999), Int64 1, Float64 (69 / 2), Int64 0]]\<rparr>"

definition combined_filled :: frame where
  "combined_filled = \<lparr>header = [''Sex'', ''Age'', ''Train'', ''Survived''],
      rows = [[Int64 0, Float64 38, Int64 1, Int64 1],
              [Int64 1, Float64 0, Int64 1, Int64 0],
              [Int64 1, Float64 (69 / 2), Int64 0, Int64 (- 999)]]\<rparr>"


section \<open>titanic\_classifier.py: the orchestration class\<close>

text \<open>
  The fields of \<^verbatim>\<open>SurvivalClassifier\<close>.  \<open>'m\<close> is the type of the classifier objects
  of the statistical library, \<open>'h\<close> the type of a hyper-parameter grid; a model name
  and a grid default to \<^verbatim>\<open>None\<close>.  Labels are 64-bit integers, written as their values.
\<close>

record ('m, 'h) SurvivalClassifier =
  models :: "'m list"
  model_names :: "string option list"
  hyper_parameters :: "'h option list"
  train_x :: frame
  train_y :: "int list"
  test_x :: frame
  verbose :: int
  result :: "int list"

text \<open>
  \<^verbatim>\<open>
  def __init__(self, train_x, train_y, test_x, verbose=3):
      self.models = []
      self.model_names = []
      self.hyper_parameters = []
      self.train_x = train_x
      self.train_y = train_y
      self.test_x = test_x
      self.verbose = verbose
      self.result = []
  \<close>
\<close>

definition init :: "frame \<Rightarrow> int list \<Rightarrow> frame \<Rightarrow> int \<Rightarrow> ('m, 'h) SurvivalClassifier" where
  "init trn_x trn_y tst_x vb =
     \<lparr>models = [], model_names = [], hyper_parameters = [],
      train_x = trn_x, train_y = trn_y, test_x = tst_x, verbose = vb, result = []\<rparr>"

text \<open>
  \<^verbatim>\<open>
  def append_model(self, model, model_name=None, hyper_parameters=None):
      self.models.append(model)
      self.model_names.append(model_name)
      self.hyper_parameters.append(hyper_parameters)
      return None
  \<close>
\<close>

definition append_model ::
  "('m, 'h) SurvivalClassifier \<Rightarrow> 'm \<Rightarrow> string option \<Rightarrow> 'h option \<Rightarrow> ('m, 'h) SurvivalClassifier" where
  "append_model self model model_name hyper =
     self\<lparr>models := models self @ [model],
          model_names := model_names self @ [model_name],
          hyper_parameters := hyper_parameters self @ [hyper]\<rparr>"

text \<open>The three lists of a classifier are index-aligned.\<close>

definition aligned :: "('m, 'h) SurvivalClassifier \<Rightarrow> bool" where
  "aligned self =
     (length (model_names self) = length (models self) \<and>
      length (hyper_parameters self) = length (models self))"

subsection \<open>Arrays\<close>








subsection \<open>Voting\<close>

text \<open>
  \<^verbatim>\<open>
  def get_classifier(self, voting='hard', weights=None):
      model_with_name = []
      for index, model in enumerate(self.models):
          model_with_name.append(tuple([self.model_names[index], model]))

      voting_classifier = VotingClassifier(estimators=model_with_name, voting=voting, weights=weights)
      return voting_classifier

  def voting(self, voting='hard', weights=None):
      voting_classifier = self.get_classifier(voting=voting, weights=weights)
      voting_classifier = voting_classifier.fit(self.train_x, self.train_y)

      self.result = voting_classifier.predict(self.test_x)

      return None

  def flush_result(self, output_file_name, test_file_name):
      ensemble = pd.read_csv(test_file_name)[['PassengerId']].assign(
          Survived=self.result)
      ensemble.to_csv(output_file_name, index=False)
  \<close>
  A method returns the object as the call leaves it, or the exception it raised.
\<close>

definition get_classifier ::
  "'m sklearn \<Rightarrow> ('m, 'h) SurvivalClassifier \<Rightarrow> voting_kind \<Rightarrow> int list option \<Rightarrow> error + 'm" where
  "get_classifier lib self voting_arg weights =
     and_then (traverse (\<lambda>(i, model). and_then (index (model_names self) i) (\<lambda>name.
                           Inr (name, model)))
                 (enumerate 0 (models self))) (\<lambda>model_with_name.
     Inr (VotingClassifier lib model_with_name voting_arg weights))"

definition voting ::
  "'m sklearn \<Rightarrow> ('m, 'h) SurvivalClassifier \<Rightarrow> voting_kind \<Rightarrow> int list option
     \<Rightarrow> error + ('m, 'h) SurvivalClassifier" where
  "voting lib self voting_arg weights =
     and_then (get_classifier lib self voting_arg weights) (\<lambda>voting_classifier.
     and_then (fit lib voting_classifier (rows (train_x self)) (train_y self)) (\<lambda>voting_classifier.
     and_then (predict lib voting_classifier (rows (test_x self))) (\<lambda>predictions.
     Inr (self\<lparr>result := predictions\<rparr>))))"


subsection \<open>Blending\<close>




subsection \<open>Stacking\<close>



section \<open>A small statistical library\<close>

text \<open>
  An instance of the library record, for running the model on concrete inputs.  Its
  classifiers are: a decision stump \<open>Stump j t pos\<close>, which predicts 1 on a row whose
  value in column \<open>j\<close> is above \<open>t\<close> (below or equal, when \<open>pos\<close> is False) and is not
  changed by fitting; the classifier \<open>MostFrequent\<close>, fitted to \<open>Constant l\<close> for the
  most frequent training label \<open>l\<close> (the smallest of them on a tie); a perceptron that
  this small library fits in the same way; and \<open>Voting\<close>, the unweighted hard vote of its
  estimators.
\<close>

datatype toy = Stump nat int bool | MostFrequent | Constant int | Perceptron | Voting "toy list"

definition most_frequent :: "int list \<Rightarrow> int" where
  "most_frequent ys =
     (case sort (remdups ys) of
        [] \<Rightarrow> 0
      | c # cs \<Rightarrow> foldl (\<lambda>best l. if count_list ys best < count_list ys l then l else best) c cs)"

text \<open>The results of a list of calls, or the first exception among them.\<close>

fun collect :: "(error + 'a) list \<Rightarrow> error + 'a list" where
  "collect [] = Inr []"
| "collect (r # rs) = and_then r (\<lambda>x. and_then (collect rs) (\<lambda>xs. Inr (x # xs)))"

fun toy_fit :: "toy \<Rightarrow> matrix \<Rightarrow> int list \<Rightarrow> error + toy" where
  "toy_fit (Voting ms) X y =
     (if ms = [] then Inl (LibraryError ''no estimators'')
      else and_then (collect (map (\<lambda>m. toy_fit m X y) ms)) (\<lambda>fitted. Inr (Voting fitted)))"
| "toy_fit (Stump j t pos) X y =
     (if y = [] \<or> length X \<noteq> length y then Inl (LibraryError ''bad input'')
      else Inr (Stump j t pos))"
| "toy_fit m X y =
     (if y = [] \<or> length X \<noteq> length y then Inl (LibraryError ''bad input'')
      else Inr (Constant (most_frequent y)))"

definition stump_row :: "nat \<Rightarrow> int \<Rightarrow> bool \<Rightarrow> cell list \<Rightarrow> error + int" where
  "stump_row j t pos r =
     and_then (index r j) (\<lambda>c.
     and_then (gt_num c t) (\<lambda>above.
     Inr (if above = pos then 1 else 0)))"

fun toy_predict :: "toy \<Rightarrow> matrix \<Rightarrow> error + int list" where
  "toy_predict (Voting ms) X =
     and_then (collect (map (\<lambda>m. toy_predict m X) ms)) (\<lambda>ballots.
     Inr (map (\<lambda>i. most_frequent (map (\<lambda>b. b ! i) ballots)) [0..<length X]))"
| "toy_predict (Stump j t pos) X = traverse (stump_row j t pos) X"
| "toy_predict (Constant l) X = Inr (map (\<lambda>r. l) X)"
| "toy_predict m X = Inl (LibraryError ''not fitted'')"

definition toy_predict_proba :: "toy \<Rightarrow> matrix \<Rightarrow> error + matrix" where
  "toy_predict_proba m X =
     (case m of
        Voting ms \<Rightarrow> Inl (LibraryError ''no predict_proba with hard voting'')
      | _ \<Rightarrow> and_then (toy_predict m X) (\<lambda>labels.
               Inr (map (\<lambda>l. if l = 1 then [Float64 0, Float64 1] else [Float64 1, Float64 0])
                      labels)))"

definition toy_kfold_split ::
  "nat \<Rightarrow> matrix \<Rightarrow> int list \<Rightarrow> error + (nat list \<times> nat list) list" where
  "toy_kfold_split n X y =
     (if n < 2 \<or> length X < n then Inl (LibraryError ''bad number of folds'')
      else Inr (map (\<lambda>i. (filter (\<lambda>k. k mod n \<noteq> i) [0..<length X],
                          filter (\<lambda>k. k mod n = i) [0..<length X])) [0..<n]))"

definition toy_train_test_split ::
  "matrix \<Rightarrow> int list \<Rightarrow> rat \<Rightarrow> int \<Rightarrow> error + (matrix \<times> matrix \<times> int list \<times> int list)" where
  "toy_train_test_split X y test_size random_state =
     (if length X < 2 \<or> length X \<noteq> length y then Inl (LibraryError ''bad input'')
      else Inr (take (length X div 2) X, drop (length X div 2) X,
                take (length X div 2) y, drop (length X div 2) y))"

fun cell_value :: "cell \<Rightarrow> rat" where
  "cell_value (Int64 i) = of_int i"
| "cell_value (Float64 r) = r"
| "cell_value _ = 0"

definition toy_row_mean :: "cell list \<Rightarrow> cell" where
  "toy_row_mean r =
     (if r = [] \<or> list_ex (\<lambda>c. \<not> numeric c \<or> c \<in> set [NaN, PInf, NInf]) r then NaN
      else Float64 (sum_list (map cell_value r) / of_nat (length r)))"

definition toy_sklearn :: "toy sklearn" where
  "toy_sklearn =
     \<lparr>fit = toy_fit, predict = toy_predict, predict_proba = toy_predict_proba,
      VotingClassifier = (\<lambda>estimators kind weights. Voting (map snd estimators)),
      MLPClassifier = (\<lambda>hidden_layer_sizes. Perceptron),
      kfold_split = toy_kfold_split, train_test_split = toy_train_test_split,
      row_mean = toy_row_mean\<rparr>"

text \<open>The same library with a voting classifier that cannot be fitted.\<close>

definition no_voting :: "toy sklearn" where
  "no_voting =
     toy_sklearn\<lparr>fit := (\<lambda>m X y. case m of
                                   Voting ms \<Rightarrow> Inl (LibraryError ''no voting classifier'')
                                 | _ \<Rightarrow> toy_fit m X y)\<rparr>"

subsection \<open>Inputs of the ensembles\<close>

text \<open>
  Four training records with the features Sex and Pclass\_3 and their outcomes, three
  records to predict, and the file system that holds the test file they came from.
\<close>

definition train_features :: frame where
  "train_features = \<lparr>header = [''Sex'', ''Pclass_3''],
      rows = [[Int64 1, Int64 1], [Int64 0, Int64 0], [Int64 0, Int64 1], [Int64 1, Int64 0]]\<rparr>"

definition train_outcomes :: "int list" where
  "train_outcomes = [0, 1, 1, 0]"

definition test_features :: frame where
  "test_features = \<lparr>header = [''Sex'', ''Pclass_3''],
      rows = [[Int64 1, Int64 1], [Int64 0, Int64 1], [Int64 1, Int64 0]]\<rparr>"

definition test_file :: frame where
  "test_file = \<lparr>header = [''PassengerId'', ''Pclass'', ''Sex''],
      rows = [[Int64 892, Int64 3, Str ''male''],
              [Int64 893, Int64 3, Str ''female''],
              [Int64 894, Int64 2, Str ''male'']]\<rparr>"

definition disk :: files where
  "disk = [''data/test.csv'' \<mapsto> test_file]"

definition women :: toy where
  "women = Stump 0 0 False"

definition not_third_class :: toy where
  "not_third_class = Stump 1 0 False"

definition submission :: "int list \<Rightarrow> frame" where
  "submission survived =
     \<lparr>header = [''PassengerId'', ''Survived''],
      rows = map (\<lambda>(i, s). [Int64 i, Int64 s]) (zip [892, 893, 894] survived)\<rparr>"

text \<open>
  An orchestration object over these records, with two appended models, and the three
  classifiers and votes of a weighted ensemble.
\<close>

definition crew :: "(toy, unit) SurvivalClassifier" where
  "crew = append_model
            (append_model (init train_features train_outcomes test_features 3)
               women (Some ''Women'') None)
            MostFrequent None None"

definition weighted_models :: "(toy \<times> int) list" where
  "weighted_models = [(women, 3), (not_third_class, 1), (MostFrequent, 1)]"

definition named_models :: "(string \<times> toy) list" where
  "named_models = [(''women'', women), (''class'', not_third_class), (''mf'', MostFrequent)]"

section \<open>custom\_model.py: filling the missing ages\<close>

text \<open>
  The numeric library is a parameter as well: the mean and the standard deviation of a
  column, the difference and the sum of two floats, and \<^verbatim>\<open>np.random.randint\<close>, which
  draws from the random number generator of the process.  The script never seeds the
  generator; its state \<open>'g\<close> is an input of the model, and \<open>randint g low high size\<close>
  returns the draws with the state that follows.
\<close>

record 'g numerics =
  series_mean :: "cell list \<Rightarrow> cell"
  series_std :: "cell list \<Rightarrow> cell"
  float_sub :: "cell \<Rightarrow> cell \<Rightarrow> cell"
  float_add :: "cell \<Rightarrow> cell \<Rightarrow> cell"
  randint :: "'g \<Rightarrow> cell \<Rightarrow> cell \<Rightarrow> nat \<Rightarrow> error + (int list \<times> 'g)"

text \<open>
  \<^verbatim>\<open>column.astype(int)\<close> on one cell: a float is truncated towards zero; a missing or
  infinite value, or text that is no number, raises ValueError.
\<close>

fun astype_int :: "cell \<Rightarrow> error + cell" where
  "astype_int (Int64 i) = Inr (Int64 i)"
| "astype_int (Float64 r) = Inr (Int64 (if 0 \<le> r then \<lfloor>r\<rfloor> else \<lceil>r\<rceil>))"
| "astype_int _ = Inl ValueError"

text \<open>
  \<^verbatim>\<open>column[np.isnan(column)] = values\<close>: \<^verbatim>\<open>np.isnan\<close> raises TypeError on text; the
  missing cells take the values in order when there is one value per missing cell, a
  single value goes to all of them, and any other number of values raises ValueError.
\<close>

fun fill_missing :: "cell list \<Rightarrow> cell list \<Rightarrow> cell list" where
  "fill_missing [] vs = []"
| "fill_missing (c # cs) [] = c # fill_missing cs []"
| "fill_missing (c # cs) (v # vs) =
     (if isnull c then v # fill_missing cs vs else c # fill_missing cs (v # vs))"

definition set_missing :: "cell list \<Rightarrow> cell list \<Rightarrow> error + cell list" where
  "set_missing col vs =
     (if list_ex (\<lambda>c. \<not> numeric c) col then Inl TypeError
      else if length vs = 1 then Inr (map (\<lambda>c. if isnull c then vs ! 0 else c) col)
      else if length vs = length (filter isnull col) then Inr (fill_missing col vs)
      else Inl ValueError)"

text \<open>
  \<^verbatim>\<open>
  average_age_titanic = titanic_df["Age"].mean()
  std_age_titanic = titanic_df["Age"].std()
  count_nan_age_titanic = titanic_df["Age"].isnull().sum()

  average_age_test = test_df["Age"].mean()
  std_age_test = test_df["Age"].std()
  count_nan_age_test = test_df["Age"].isnull().sum()

  rand_1 = np.random.randint(average_age_titanic - std_age_titanic,
                             average_age_titanic + std_age_titanic,
                             size=count_nan_age_titanic)
  rand_2 = np.random.randint(average_age_test - std_age_test,
                             average_age_test + std_age_test, size=count_nan_age_test)

  titanic_df['Age'].dropna().astype(int)

  titanic_df["Age"][np.isnan(titanic_df["Age"])] = rand_1
  test_df["Age"][np.isnan(test_df["Age"])] = rand_2

  titanic_df['Age'] = titanic_df['Age'].astype(int)
  test_df['Age'] = test_df['Age'].astype(int)
  \<close>
  The two frames are those the script holds when it reaches these lines; the function
  returns them as the lines leave them, with the state of the generator.
\<close>

definition fill_ages ::
  "'g numerics \<Rightarrow> 'g \<Rightarrow> frame \<Rightarrow> frame \<Rightarrow> error + (frame \<times> frame \<times> 'g)" where
  "fill_ages np g titanic_df test_df =
     and_then (getitem titanic_df ''Age'') (\<lambda>age_titanic.
     and_then (getitem test_df ''Age'') (\<lambda>age_test.
     and_then (randint np g
                 (float_sub np (series_mean np age_titanic) (series_std np age_titanic))
                 (float_add np (series_mean np age_titanic) (series_std np age_titanic))
                 (length (filter isnull age_titanic))) (\<lambda>(rand_1, g1).
     and_then (randint np g1
                 (float_sub np (series_mean np age_test) (series_std np age_test))
                 (float_add np (series_mean np age_test) (series_std np age_test))
                 (length (filter isnull age_test))) (\<lambda>(rand_2, g2).
     and_then (traverse astype_int (filter (\<lambda>c. \<not> isnull c) age_titanic)) (\<lambda>unused.
     and_then (set_missing age_titanic (map (\<lambda>r. Float64 (of_int r)) rand_1)) (\<lambda>age_titanic.
     and_then (set_missing age_test (map (\<lambda>r. Float64 (of_int r)) rand_2)) (\<lambda>age_test.
     and_then (traverse astype_int age_titanic) (\<lambda>age_titanic.
     and_then (assign titanic_df ''Age'' age_titanic) (\<lambda>titanic_df.
     and_then (traverse astype_int age_test) (\<lambda>age_test.
     and_then (assign test_df ''Age'' age_test) (\<lambda>test_df.
     Inr (titanic_df, test_df, g2))))))))))))"

subsection \<open>A numeric library that replays its draws\<close>

text \<open>
  The state of this generator is the list of the draws to come; \<open>randint\<close> hands out
  the next ones, and raises when \<open>low \<ge> high\<close>, as numpy does, or when a draw is
  outside the bounds.  The mean is exact; the standard deviation (with \<open>n - 1\<close> in the
  denominator) is rounded down to a whole number.
\<close>

definition present :: "cell list \<Rightarrow> rat list" where
  "present col = map cell_value (filter (\<lambda>c. \<not> isnull c) col)"

definition replay_mean :: "cell list \<Rightarrow> cell" where
  "replay_mean col =
     (if present col = [] then NaN
      else Float64 (sum_list (present col) / of_nat (length (present col))))"

definition floor_sqrt :: "nat \<Rightarrow> nat" where
  "floor_sqrt n = length (filter (\<lambda>k. k * k \<le> n) [1..<Suc n])"

definition replay_std :: "cell list \<Rightarrow> cell" where
  "replay_std col =
     (if length (present col) < 2 then NaN
      else (let m = sum_list (present col) / of_nat (length (present col));
                v = sum_list (map (\<lambda>x. (x - m) * (x - m)) (present col))
                      / of_nat (length (present col) - 1)
            in Float64 (of_nat (floor_sqrt (nat \<lfloor>v\<rfloor>)))))"

definition replay_arith :: "(rat \<Rightarrow> rat \<Rightarrow> rat) \<Rightarrow> cell \<Rightarrow> cell \<Rightarrow> cell" where
  "replay_arith f a b =
     (if a \<in> set [NaN, PInf, NInf] \<or> b \<in> set [NaN, PInf, NInf] \<or> \<not> numeric a \<or> \<not> numeric b
      then NaN
      else Float64 (f (cell_value a) (cell_value b)))"

definition replay_randint ::
  "int list \<Rightarrow> cell \<Rightarrow> cell \<Rightarrow> nat \<Rightarrow> error + (int list \<times> int list)" where
  "replay_randint g low high n =
     (if length g < n then Inl (LibraryError ''no draws left'')
      else if n = 0 then Inr ([], g)
      else if \<not> cell_value low < cell_value high then Inl ValueError
      else if list_ex (\<lambda>d. of_int d < cell_value low \<or> cell_value high \<le> of_int d) (take n g)
        then Inl (LibraryError ''draw out of bounds'')
      else Inr (take n g, drop n g))"

definition replay :: "int list numerics" where
  "replay = \<lparr>series_mean = replay_mean, series_std = replay_std,
             float_sub = replay_arith (\<lambda>a b. a - b), float_add = replay_arith (\<lambda>a b. a + b),
             randint = replay_randint\<rparr>"

text \<open>The Age columns of four training records and of two test records, all children.\<close>

definition titanic_ages :: frame where
  "titanic_ages = \<lparr>header = [''Survived'', ''Age''],
      rows = [[Int64 0, Float64 2], [Int64 1, Float64 4], [Int64 1, NaN],
              [Int64 1, Float64 3]]\<rparr>"

definition test_ages :: frame where
  "test_ages = \<lparr>header = [''PassengerId'', ''Age''],
      rows = [[Int64 892, Float64 (1 / 2)], [Int64 893, Float64 2]]\<rparr>"

text \<open>The two frames after a run that draws the age \<open>drawn\<close> for the third training record.\<close>

definition titanic_filled :: "int \<Rightarrow> frame" where
  "titanic_filled drawn = \<lparr>header = [''Survived'', ''Age''],
      rows = [[Int64 0, Int64 2], [Int64 1, Int64 4], [Int64 1, Int64 drawn],
              [Int64 1, Int64 3]]\<rparr>"

definition test_filled :: frame where
  "test_filled = \<lparr>header = [''PassengerId'', ''Age''],
      rows = [[Int64 892, Int64 0], [Int64 893, Int64 2]]\<rparr>"


section \<open>Splitting\<close>

lemma split_not_Nil: "split c s \<noteq> []"
  by (induction s) (auto split: list.splits)

lemma split_no_sep: "c \<notin> set s \<Longrightarrow> split c s = [s]"
  by (induction s) auto

lemma split_first_sep: "c \<notin> set a \<Longrightarrow> split c (a @ c # b) = a # split c b"
  by (induction a) auto

lemma split_hd: "hd (split c s) = takeWhile (\<lambda>x. x \<noteq> c) s"
  by (induction s) (auto simp: split_not_Nil split: list.splits)

lemma index_split_0: "index (split c s) 0 = Inr (takeWhile (\<lambda>x. x \<noteq> c) s)"
  using split_not_Nil [of c s] split_hd [of c s]
  by (cases "split c s") (auto simp: index_def)

lemma index_split_1_first:
  "c \<notin> set a \<Longrightarrow> index (split c (a @ c # b)) 1 = Inr (takeWhile (\<lambda>x. x \<noteq> c) b)"
  using split_not_Nil [of c b] split_hd [of c b]
  by (cases "split c b") (auto simp: index_def split_first_sep)

lemma index_split_1_none: "c \<notin> set s \<Longrightarrow> index (split c s) 1 = Inl IndexError"
  by (simp add: split_no_sep index_def)

section \<open>Sequencing and frames\<close>

lemma and_then_Inr [simp]: "and_then (Inr x) f = f x"
  by (simp add: and_then_def)

lemma and_then_Inl [simp]: "and_then (Inl e) f = Inl e"
  by (simp add: and_then_def)

lemma and_then_eq_Inr:
  "and_then m f = Inr y \<longleftrightarrow> (\<exists>x. m = Inr x \<and> f x = Inr y)"
  by (cases m) auto

lemma traverse_Inr_length: "traverse f xs = Inr ys \<Longrightarrow> length ys = length xs"
  by (induction xs arbitrary: ys) (auto simp: and_then_eq_Inr)

lemma traverse_Inr_nth:
  "traverse f xs = Inr ys \<Longrightarrow> i < length xs \<Longrightarrow> f (xs ! i) = Inr (ys ! i)"
proof (induction xs arbitrary: ys i)
  case Nil
  then show ?case by simp
next
  case (Cons x xs)
  then show ?case
    by (cases i) (auto simp: and_then_eq_Inr)
qed


lemma traverse_Inr_map: "traverse (\<lambda>x. Inr (g x)) xs = Inr (map g xs)"
  by (induction xs) auto

lemma position_Some: "position hs c = Some j \<Longrightarrow> j < length hs \<and> hs ! j = c"
  by (induction hs arbitrary: j) (auto split: if_splits)

lemma position_None: "position hs c = None \<longleftrightarrow> c \<notin> set hs"
  by (induction hs) auto

lemma position_append:
  "position (hs @ [c]) c' =
     (case position hs c' of
        Some j \<Rightarrow> Some j
      | None \<Rightarrow> if c = c' then Some (length hs) else None)"
  by (induction hs) (auto split: option.splits)

lemma position_inj: "position hs c = Some j \<Longrightarrow> position hs c' = Some j \<Longrightarrow> c = c'"
  using position_Some by blast

text \<open>The rows a column is put into: those of the frame, or fresh ones for a frame without rows.\<close>

lemma assign_Inr:
  assumes "assign f c vs = Inr f'"
  shows "\<exists>base.
    (base = rows f \<or>
     (rows f = [] \<and> base = replicate (length vs) (replicate (length (header f)) NaN))) \<and>
    length vs = length base \<and>
    f' = (case position (header f) c of
            None \<Rightarrow> \<lparr>header = header f @ [c], rows = map (\<lambda>(r, v). r @ [v]) (zip base vs)\<rparr>
          | Some j \<Rightarrow> \<lparr>header = header f, rows = map (\<lambda>(r, v). r[j := v]) (zip base vs)\<rparr>)"
proof (cases "rows f = []")
  case True
  then show ?thesis
    using assms unfolding assign_def Let_def
    by (intro exI [of _ "replicate (length vs) (replicate (length (header f)) NaN)"])
       (auto split: if_splits option.splits)
next
  case False
  then show ?thesis
    using assms unfolding assign_def Let_def
    by (intro exI [of _ "rows f"]) (auto split: if_splits option.splits)
qed

lemma assign_rows_length: "assign f c vs = Inr f' \<Longrightarrow> length (rows f') = length vs"
  by (drule assign_Inr) (auto split: option.splits)

lemma assign_nonempty_length:
  "assign f c vs = Inr f' \<Longrightarrow> rows f \<noteq> [] \<Longrightarrow> length vs = length (rows f)"
  by (drule assign_Inr) auto


lemma wf_assign:
  assumes "wf_frame f" "assign f c vs = Inr f'"
  shows "wf_frame f'"
proof -
  from assign_Inr [OF assms(2)] obtain base where
    base: "base = rows f \<or> (rows f = [] \<and> base = replicate (length vs) (replicate (length (header f)) NaN))"
    and len: "length vs = length base"
    and f': "f' = (case position (header f) c of
            None \<Rightarrow> \<lparr>header = header f @ [c], rows = map (\<lambda>(r, v). r @ [v]) (zip base vs)\<rparr>
          | Some j \<Rightarrow> \<lparr>header = header f, rows = map (\<lambda>(r, v). r[j := v]) (zip base vs)\<rparr>)"
    by blast
  have rowlen: "\<And>r. r \<in> set base \<Longrightarrow> length r = length (header f)"
    using assms(1) base by (auto simp: wf_frame_def list_all_iff)
  show ?thesis
  proof (cases "position (header f) c")
    case None
    then show ?thesis
      using f' rowlen by (auto simp: wf_frame_def list_all_iff dest!: set_zip_leftD)
  next
    case (Some j)
    then show ?thesis
      using f' rowlen by (auto simp: wf_frame_def list_all_iff dest!: set_zip_leftD)
  qed
qed

lemma getitem_assign_same:
  assumes "wf_frame f" "assign f c vs = Inr f'"
  shows "getitem f' c = Inr vs"
proof -
  from assign_Inr [OF assms(2)] obtain base where
    base: "base = rows f \<or> (rows f = [] \<and> base = replicate (length vs) (replicate (length (header f)) NaN))"
    and len: "length vs = length base"
    and f': "f' = (case position (header f) c of
            None \<Rightarrow> \<lparr>header = header f @ [c], rows = map (\<lambda>(r, v). r @ [v]) (zip base vs)\<rparr>
          | Some j \<Rightarrow> \<lparr>header = header f, rows = map (\<lambda>(r, v). r[j := v]) (zip base vs)\<rparr>)"
    by blast
  have rowlen: "\<And>r. r \<in> set base \<Longrightarrow> length r = length (header f)"
    using assms(1) base by (auto simp: wf_frame_def list_all_iff)
  show ?thesis
  proof (cases "position (header f) c")
    case None
    have "map (\<lambda>r. r ! length (header f)) (map (\<lambda>(r, v). r @ [v]) (zip base vs)) = map snd (zip base vs)"
      using rowlen by (auto simp: nth_append dest!: set_zip_leftD)
    then show ?thesis
      using None len by (simp add: f' getitem_def position_append)
  next
    case (Some j)
    have "j < length (header f)"
      using Some position_Some by blast
    then have "map (\<lambda>r. r ! j) (map (\<lambda>(r, v). r[j := v]) (zip base vs)) = map snd (zip base vs)"
      using rowlen by (auto dest!: set_zip_leftD)
    then show ?thesis
      using Some len by (simp add: f' getitem_def)
  qed
qed

lemma getitem_assign_other:
  assumes "wf_frame f" "assign f c vs = Inr f'" "c' \<noteq> c" "length vs = length (rows f)"
  shows "getitem f' c' = getitem f c'"
proof -
  from assign_Inr [OF assms(2)] obtain base where
    base: "base = rows f \<or> (rows f = [] \<and> base = replicate (length vs) (replicate (length (header f)) NaN))"
    and len: "length vs = length base"
    and f': "f' = (case position (header f) c of
            None \<Rightarrow> \<lparr>header = header f @ [c], rows = map (\<lambda>(r, v). r @ [v]) (zip base vs)\<rparr>
          | Some j \<Rightarrow> \<lparr>header = header f, rows = map (\<lambda>(r, v). r[j := v]) (zip base vs)\<rparr>)"
    by blast
  have base_eq: "base = rows f"
    using base assms(4) by auto
  have rowlen: "\<And>r. r \<in> set (rows f) \<Longrightarrow> length r = length (header f)"
    using assms(1) by (simp add: wf_frame_def list_all_iff)
  have fst_zip: "map fst (zip (rows f) vs) = rows f"
    using assms(4) by simp
  show ?thesis
  proof (cases "position (header f) c")
    case None
    note f' = f' [unfolded base_eq None option.case]
    show ?thesis
    proof (cases "position (header f) c'")
      case None
      then show ?thesis
        using assms(3) by (simp add: f' getitem_def position_append)
    next
      case (Some j)
      then have "j < length (header f)"
        using position_Some by blast
      then have "map (\<lambda>r. r ! j) (map (\<lambda>(r, v). r @ [v]) (zip (rows f) vs))
          = map (\<lambda>r. r ! j) (map fst (zip (rows f) vs))"
        using rowlen by (auto simp: nth_append dest!: set_zip_leftD)
      then show ?thesis
        using Some fst_zip by (simp add: f' getitem_def position_append)
    qed
  next
    case (Some j)
    note f' = f' [unfolded base_eq Some option.case]
    show ?thesis
    proof (cases "position (header f) c'")
      case None
      then show ?thesis
        by (simp add: f' getitem_def)
    next
      case (Some j')
      then have "j' \<noteq> j"
        using \<open>position (header f) c = Some j\<close> assms(3) position_inj by blast
      then have "map (\<lambda>r. r ! j') (map (\<lambda>(r, v). r[j := v]) (zip (rows f) vs))
          = map (\<lambda>r. r ! j') (map fst (zip (rows f) vs))"
        by auto
      then show ?thesis
        using Some fst_zip by (simp add: f' getitem_def)
    qed
  qed
qed

lemma getitem_length: "getitem f c = Inr col \<Longrightarrow> length col = length (rows f)"
  by (auto simp: getitem_def split: option.splits)

section \<open>Titles\<close>

lemma takeWhile_neq_append:
  "c \<notin> set a \<Longrightarrow> takeWhile (\<lambda>x. x \<noteq> c) (a @ b) = a @ takeWhile (\<lambda>x. x \<noteq> c) b"
  by (induction a) auto

text \<open>
  Claim C10.  On a name \<open>surname, title. rest\<close>, where the surname has no comma and the
  title has neither a comma nor a period, \<^verbatim>\<open>extract_title\<close> returns Miss for Mlle and
  Ms, Mrs for Mme, Esteemed for Rev, Dr, Major, Col, Capt, Jonkheer and Dona, Royalty for
  Don, Lady, Sir and the Countess, and the title itself otherwise.  On a string with no
  comma it raises IndexError.
\<close>

theorem extract_title_spec:
  "(CHR '','' \<notin> set surname \<and> CHR '','' \<notin> set title \<and> CHR ''.'' \<notin> set title \<longrightarrow>
      extract_title (surname @ '', '' @ title @ ''.'' @ rest) =
        Inr (if title = ''Mlle'' \<or> title = ''Ms'' then ''Miss''
             else if title = ''Mme'' then ''Mrs''
             else if title \<in> {''Rev'', ''Dr'', ''Major'', ''Col'', ''Capt'', ''Jonkheer'', ''Dona''}
               then ''Esteemed''
             else if title \<in> {''Don'', ''Lady'', ''Sir'', ''the Countess''} then ''Royalty''
             else title))
   \<and> (CHR '','' \<notin> set x \<longrightarrow> extract_title x = Inl IndexError)"
proof (intro conjI impI)
  assume h: "CHR '','' \<notin> set surname \<and> CHR '','' \<notin> set title \<and> CHR ''.'' \<notin> set title"
  let ?tail = "CHR '' '' # title @ CHR ''.'' # rest"
  have name: "surname @ '', '' @ title @ ''.'' @ rest = surname @ CHR '','' # ?tail"
    by simp
  have seg: "index (split CHR '','' (surname @ CHR '','' # ?tail)) 1
      = Inr (CHR '' '' # title @ CHR ''.'' # takeWhile (\<lambda>x. x \<noteq> CHR '','') rest)"
  proof -
    have "takeWhile (\<lambda>x. x \<noteq> CHR '','') ?tail
        = CHR '' '' # title @ CHR ''.'' # takeWhile (\<lambda>x. x \<noteq> CHR '','') rest"
      using h by (simp add: takeWhile_neq_append)
    with index_split_1_first [of "CHR '',''" surname ?tail] h show ?thesis
      by simp
  qed
  have tit: "index (split CHR ''.'' (CHR '' '' # title @ CHR ''.'' # takeWhile (\<lambda>x. x \<noteq> CHR '','') rest)) 0
      = Inr (CHR '' '' # title)"
  proof -
    have "takeWhile (\<lambda>x. x \<noteq> CHR ''.'')
            (CHR '' '' # title @ CHR ''.'' # takeWhile (\<lambda>x. x \<noteq> CHR '','') rest)
        = CHR '' '' # title"
      using h by (simp add: takeWhile_neq_append)
    then show ?thesis
      by (simp only: index_split_0)
  qed
  show "extract_title (surname @ '', '' @ title @ ''.'' @ rest) =
        Inr (if title = ''Mlle'' \<or> title = ''Ms'' then ''Miss''
             else if title = ''Mme'' then ''Mrs''
             else if title \<in> {''Rev'', ''Dr'', ''Major'', ''Col'', ''Capt'', ''Jonkheer'', ''Dona''}
               then ''Esteemed''
             else if title \<in> {''Don'', ''Lady'', ''Sir'', ''the Countess''} then ''Royalty''
             else title)"
    unfolding name extract_title_def seg sum.case tit by (simp add: Let_def)
next
  assume "CHR '','' \<notin> set x"
  then show "extract_title x = Inl IndexError"
    using index_split_1_none [of "CHR '',''" x] by (simp add: extract_title_def)
qed

theorem extract_title_spec_witness:
  "extract_title ''Sagesser, Mlle. Emma'' = Inr ''Miss''
   \<and> extract_title ''Cher'' = Inl IndexError"
  using extract_title_spec [of "''Sagesser''" "''Mlle''" "'' Emma''" "''Cher''"]
  by simp

section \<open>The AloneRightPlace feature\<close>










section \<open>The lists of the orchestration class\<close>

lemma aligned_init: "aligned (init trn_x trn_y tst_x vb)"
  by (simp add: aligned_def init_def)

lemma aligned_append_model: "aligned self \<Longrightarrow> aligned (append_model self m n h)"
  by (simp add: aligned_def append_model_def)

text \<open>
  Claim C9.  The lists \<open>models\<close>, \<open>model_names\<close> and \<open>hyper_parameters\<close> of a
  \<^verbatim>\<open>SurvivalClassifier\<close> have the same length after \<^verbatim>\<open>__init__\<close>, and
  \<^verbatim>\<open>append_model\<close> keeps them so; where they have, every index of \<open>models\<close> is an
  index of the other two lists.
\<close>

theorem lists_aligned:
  "aligned (init trn_x trn_y tst_x vb :: ('m, 'h) SurvivalClassifier) \<and>
   (aligned (self :: ('m, 'h) SurvivalClassifier) \<longrightarrow>
      aligned (append_model self m n h) \<and>
      (\<forall>i < length (models self).
         i < length (model_names self) \<and> i < length (hyper_parameters self)))"
  by (simp add: aligned_def init_def append_model_def)

theorem lists_aligned_witness:
  "aligned (append_model (init passengers [1, 0, 0, 1] passengers 3) (5 :: nat) None
      (None :: unit option)) \<and>
   aligned (append_model
      (append_model (init passengers [1, 0, 0, 1] passengers 3) (5 :: nat) None
         (None :: unit option))
      7 (Some ''Random Forest Classifier'') (Some ()))"
  using lists_aligned [of passengers "[1, 0, 0, 1]" passengers 3
      "append_model (init passengers [1, 0, 0, 1] passengers 3) (5 :: nat) None (None :: unit option)"
      7 "Some ''Random Forest Classifier''" "Some ()"]
    lists_aligned [of passengers "[1, 0, 0, 1]" passengers 3
      "init passengers [1, 0, 0, 1] passengers 3 :: (nat, unit) SurvivalClassifier"
      5 None None]
  by blast

section \<open>Imputation\<close>

lemma wf_DataFrame: "DataFrame m cs = Inr f \<Longrightarrow> wf_frame f \<and> header f = cs \<and> rows f = m"
  by (auto simp: DataFrame_def wf_frame_def split: if_splits)

lemma drop_columns_Inr:
  "drop_columns f cs = Inr f' \<Longrightarrow>
   header f' = filter (\<lambda>h. h \<notin> set cs) (header f) \<and> length (rows f') = length (rows f)"
  by (auto simp: drop_columns_def split: option.splits)

lemma drop_columns_total:
  "set cs \<subseteq> set (header f) \<Longrightarrow> \<exists>f'. drop_columns f cs = Inr f'"
  by (auto simp: drop_columns_def find_None_iff split: option.splits)


lemma impute_Inr:
  assumes "impute MICE_complete g data = Inr (results, g')"
  shows "count_null results = 0 \<and>
         getitem results ''Train'' = getitem data ''Train'' \<and>
         getitem results ''Survived'' = getitem data ''Survived''"
proof -
  from assms obtain impute_missing filled_soft results0 train results1 survived where
    dr: "drop_columns data [''Survived'', ''Train''] = Inr impute_missing"
    and mice: "MICE_complete g (rows impute_missing) = Inr (filled_soft, g')"
    and df: "DataFrame filled_soft (header impute_missing) = Inr results0"
    and tr: "getitem data ''Train'' = Inr train"
    and a1: "assign results0 ''Train'' train = Inr results1"
    and sv: "getitem data ''Survived'' = Inr survived"
    and a2: "assign results1 ''Survived'' survived = Inr results"
    and nn: "count_null results = 0"
    unfolding impute_def by (auto simp: and_then_eq_Inr split: if_splits)
  have wf0: "wf_frame results0"
    using wf_DataFrame [OF df] by simp
  have wf1: "wf_frame results1"
    using wf0 a1 by (rule wf_assign)
  have t1: "getitem results1 ''Train'' = Inr train"
    using wf0 a1 by (rule getitem_assign_same)
  have "length (rows results1) = length train"
    using a1 by (rule assign_rows_length)
  then have len: "length survived = length (rows results1)"
    using getitem_length [OF tr] getitem_length [OF sv] by simp
  have "getitem results ''Train'' = getitem results1 ''Train''"
    using getitem_assign_other [OF wf1 a2, of "''Train''"] len by simp
  moreover have "getitem results ''Survived'' = Inr survived"
    using wf1 a2 by (rule getitem_assign_same)
  ultimately show ?thesis
    using nn t1 tr sv by simp
qed





section \<open>Shapes of the blend and stack matrices\<close>









lemma voting_Inr:
  assumes "voting lib self v w = Inr self'"
  shows "\<exists>vc fitted. get_classifier lib self v w = Inr vc \<and>
           fit lib vc (rows (train_x self)) (train_y self) = Inr fitted \<and>
           predict lib fitted (rows (test_x self)) = Inr (result self')"
  using assms unfolding voting_def by (auto simp: and_then_eq_Inr)



section \<open>The submission file\<close>

lemma select_one:
  assumes "select t [c] = Inr ids"
  shows "header ids = [c] \<and> length (rows ids) = length (rows t) \<and> wf_frame ids"
  using assms
  by (auto simp: select_def and_then_eq_Inr wf_frame_def list_all_iff split: option.splits)

lemma read_csv_Inr: "read_csv fs path = Inr t \<longleftrightarrow> fs path = Some t"
  by (auto simp: read_csv_def split: option.splits)

lemma assign_new_header:
  "assign f c vs = Inr f' \<Longrightarrow> c \<notin> set (header f) \<Longrightarrow> header f' = header f @ [c]"
  by (drule assign_Inr) (auto simp: position_None [symmetric])

lemma assign_old_header:
  assumes "assign f c vs = Inr f'" "c \<in> set (header f)"
  shows "header f' = header f"
proof -
  obtain j where "position (header f) c = Some j"
    using assms(2) position_None [of "header f" c] by (cases "position (header f) c") auto
  with assign_Inr [OF assms(1)] show ?thesis
    by auto
qed

lemma vote_classifier_Inr:
  assumes "vote_classifier lib fs out named train y test w = Inr fs'"
  shows "\<exists>fitted test_csv ids predictions ensemble.
     fit lib (VotingClassifier lib (map (\<lambda>(name, m). (Some name, m)) named) Hard None)
       (rows train) y = Inr fitted \<and>
     fs ''data/test.csv'' = Some test_csv \<and>
     select test_csv [''PassengerId''] = Inr ids \<and>
     predict lib fitted (rows test) = Inr predictions \<and>
     assign ids ''Survived'' (map Int64 predictions) = Inr ensemble \<and>
     fs' = fs(out \<mapsto> ensemble)"
  using assms unfolding vote_classifier_def
  by (auto simp: and_then_eq_Inr read_csv_Inr to_csv_def)


text \<open>The frame that the two columns of a submission make.\<close>

lemma ensemble_frame:
  assumes sel: "select test_csv [''PassengerId''] = Inr ids"
    and asg: "assign ids ''Survived'' vs = Inr ensemble"
  shows "header ensemble = [''PassengerId'', ''Survived''] \<and> wf_frame ensemble \<and>
         getitem ensemble ''Survived'' = Inr vs \<and>
         length (rows ensemble) = length vs \<and>
         (rows test_csv \<noteq> [] \<longrightarrow> length (rows ensemble) = length (rows test_csv))"
proof -
  have ids: "header ids = [''PassengerId'']" "length (rows ids) = length (rows test_csv)"
    "wf_frame ids"
    using select_one [OF sel] by simp_all
  have "header ensemble = [''PassengerId'', ''Survived'']"
    using assign_new_header [OF asg] ids(1) by simp
  moreover have "wf_frame ensemble"
    using ids(3) asg by (rule wf_assign)
  moreover have "getitem ensemble ''Survived'' = Inr vs"
    using ids(3) asg by (rule getitem_assign_same)
  moreover have "length (rows ensemble) = length vs"
    using asg by (rule assign_rows_length)
  moreover have "rows test_csv \<noteq> [] \<longrightarrow> length vs = length (rows test_csv)"
  proof
    assume "rows test_csv \<noteq> []"
    then have "rows ids \<noteq> []"
      using ids(2) by auto
    then show "length vs = length (rows test_csv)"
      using assign_nonempty_length [OF asg] ids(2) by simp
  qed
  ultimately show ?thesis
    by simp
qed

section \<open>The vote of majority\_vote\_ensemble\<close>

lemma add_votes_wf:
  "add_votes e probs n = Inr e' \<Longrightarrow> wf_frame e \<Longrightarrow> wf_frame e'"
proof (induction n arbitrary: e)
  case 0
  then show ?case by simp
next
  case (Suc n)
  from Suc.prems(1) obtain total e1 where
    a: "assign e ''Survived'' total = Inr e1" and r: "add_votes e1 probs n = Inr e'"
    by (auto simp: and_then_eq_Inr)
  from Suc.IH [OF r] wf_assign [OF Suc.prems(2) a] show ?case .
qed

lemma tally_wf:
  "tally e results = Inr e' \<Longrightarrow> wf_frame e \<Longrightarrow> wf_frame e'"
proof (induction results arbitrary: e)
  case Nil
  then show ?case by simp
next
  case (Cons r results)
  obtain model probs votes where r: "r = (model, probs, votes)"
    by (cases r) auto
  from Cons.prems(1) obtain e1 where
    a: "add_votes e probs (nat votes) = Inr e1" and t: "tally e1 results = Inr e'"
    unfolding r by (auto simp: and_then_eq_Inr)
  from Cons.IH [OF t] add_votes_wf [OF a Cons.prems(2)] show ?case .
qed

lemma add_votes_header:
  "add_votes e probs n = Inr e' \<Longrightarrow> ''Survived'' \<in> set (header e) \<Longrightarrow> header e' = header e"
proof (induction n arbitrary: e)
  case 0
  then show ?case by simp
next
  case (Suc n)
  from Suc.prems(1) obtain total e1 where
    a: "assign e ''Survived'' total = Inr e1" and r: "add_votes e1 probs n = Inr e'"
    by (auto simp: and_then_eq_Inr)
  have "header e1 = header e"
    using assign_old_header [OF a Suc.prems(2)] .
  with Suc.IH [OF r] Suc.prems(2) show ?case by simp
qed

lemma tally_header:
  "tally e results = Inr e' \<Longrightarrow> ''Survived'' \<in> set (header e) \<Longrightarrow> header e' = header e"
proof (induction results arbitrary: e)
  case Nil
  then show ?case by simp
next
  case (Cons r results)
  obtain model probs votes where r: "r = (model, probs, votes)"
    by (cases r) auto
  from Cons.prems(1) obtain e1 where
    a: "add_votes e probs (nat votes) = Inr e1" and t: "tally e1 results = Inr e'"
    unfolding r by (auto simp: and_then_eq_Inr)
  have "header e1 = header e"
    using add_votes_header [OF a Cons.prems(2)] .
  with Cons.IH [OF t] Cons.prems(2) show ?case by simp
qed

lemma majority_vote_ensemble_Inr:
  assumes "majority_vote_ensemble lib fs name models_votes train outcomes to_predict = Inr (ms, fs')"
  shows "\<exists>model_results test_csv ensemble positive.
     traverse (fit_predict lib train outcomes to_predict) models_votes = Inr model_results \<and>
     fs ''data/test.csv'' = Some test_csv \<and>
     fs' = fs(name \<mapsto> ensemble) \<and>
     header ensemble = [''PassengerId'', ''Survived''] \<and> wf_frame ensemble \<and>
     getitem ensemble ''Survived'' = Inr (np_where positive 1 0)"
proof -
  from assms obtain model_results test_csv ids e0 e1 survived positive ensemble where
    tr: "traverse (fit_predict lib train outcomes to_predict) models_votes = Inr model_results"
    and rd: "fs ''data/test.csv'' = Some test_csv"
    and sel: "select test_csv [''PassengerId''] = Inr ids"
    and a0: "assign_scalar ids ''Survived'' (Int64 0) = Inr e0"
    and ta: "tally e0 model_results = Inr e1"
    and a1: "assign e1 ''Survived'' (np_where positive 1 0) = Inr ensemble"
    and fs': "fs' = fs(name \<mapsto> ensemble)"
    unfolding majority_vote_ensemble_def
    by (auto simp: and_then_eq_Inr read_csv_Inr to_csv_def)
  have e0: "header e0 = [''PassengerId'', ''Survived'']" "wf_frame e0"
    using ensemble_frame [OF sel a0 [unfolded assign_scalar_def]] by simp_all
  have e1: "header e1 = [''PassengerId'', ''Survived'']" "wf_frame e1"
    using tally_header [OF ta] tally_wf [OF ta] e0 by simp_all
  have "header ensemble = [''PassengerId'', ''Survived'']"
    using assign_old_header [OF a1] e1(1) by simp
  moreover have "wf_frame ensemble"
    using e1(2) a1 by (rule wf_assign)
  moreover have "getitem ensemble ''Survived'' = Inr (np_where positive 1 0)"
    using e1(2) a1 by (rule getitem_assign_same)
  ultimately show ?thesis
    using tr rd fs' by blast
qed

lemma np_where_0_1: "set (np_where bs 1 0) \<subseteq> {Int64 0, Int64 1}"
  by (auto simp: np_where_def)

section \<open>The sums of majority\_vote\_ensemble\<close>

lemma wrap64_add_left: "wrap64 (wrap64 x + y) = wrap64 (x + y)"
proof -
  define a where "a = (x + 2 ^ 63) mod (2 ^ 64 :: int)"
  have "wrap64 (wrap64 x + y) = (a - 2 ^ 63 + y + 2 ^ 63) mod 2 ^ 64 - 2 ^ 63"
    by (simp only: wrap64_def a_def)
  also have "a - 2 ^ 63 + y + 2 ^ 63 = a + y"
    by simp
  also have "(a + y) mod 2 ^ 64 = (x + 2 ^ 63 + y) mod 2 ^ 64"
    unfolding a_def by (rule mod_add_left_eq)
  also have "x + 2 ^ 63 + y = x + y + 2 ^ 63"
    by simp
  finally show ?thesis
    by (simp only: wrap64_def)
qed

lemma add_columns_ints:
  "length ps = length ss \<Longrightarrow>
   add_columns (map (\<lambda>s. Int64 (wrap64 s)) ss) (map Int64 ps)
     = Inr (map (\<lambda>s. Int64 (wrap64 s)) (map (\<lambda>(s, p). s + p) (zip ss ps)))"
proof -
  assume len: "length ps = length ss"
  then have "traverse (\<lambda>(x, y). add_cell x y)
       (zip (map (\<lambda>s. Int64 (wrap64 s)) ss) (map Int64 ps))
     = Inr (map (\<lambda>s. Int64 (wrap64 s)) (map (\<lambda>(s, p). s + p) (zip ss ps)))"
    by (induction ps ss rule: list_induct2) (simp_all add: wrap64_add_left)
  with len show ?thesis
    by (simp add: add_columns_def)
qed

lemma add_votes_sums:
  assumes "wf_frame e" "getitem e ''Survived'' = Inr (map (\<lambda>s. Int64 (wrap64 s)) ss)"
    "length ps = length ss" "add_votes e ps n = Inr e'"
  shows "wf_frame e' \<and>
         getitem e' ''Survived''
           = Inr (map (\<lambda>s. Int64 (wrap64 s)) (map (\<lambda>(s, p). s + int n * p) (zip ss ps)))"
  using assms
proof (induction n arbitrary: e ss)
  case 0
  have "map (\<lambda>(s, p). s + int 0 * p) (zip ss ps) = ss"
    using "0.prems"(3) by (induction ps ss rule: list_induct2) simp_all
  with 0 show ?case
    by simp
next
  case (Suc n)
  let ?ss1 = "map (\<lambda>(s, p). s + p) (zip ss ps)"
  from Suc.prems(4) Suc.prems(2) add_columns_ints [OF Suc.prems(3)]
  obtain e1 where
    a: "assign e ''Survived'' (map (\<lambda>s. Int64 (wrap64 s)) ?ss1) = Inr e1"
    and r: "add_votes e1 ps n = Inr e'"
    by (auto simp: and_then_eq_Inr)
  have wf1: "wf_frame e1"
    using Suc.prems(1) a by (rule wf_assign)
  have g1: "getitem e1 ''Survived'' = Inr (map (\<lambda>s. Int64 (wrap64 s)) ?ss1)"
    using Suc.prems(1) a by (rule getitem_assign_same)
  have len1: "length ps = length ?ss1"
    using Suc.prems(3) by simp
  have "map (\<lambda>(s, p). s + int n * p) (zip ?ss1 ps)
      = map (\<lambda>(s, p). s + int (Suc n) * p) (zip ss ps)"
    using Suc.prems(3) by (induction ps ss rule: list_induct2) (simp_all add: algebra_simps)
  with Suc.IH [OF wf1 g1 len1 r] show ?case
    by simp
qed

lemma tally_sums:
  assumes "wf_frame e" "getitem e ''Survived'' = Inr (map (\<lambda>s. Int64 (wrap64 s)) ss)"
    "\<forall>(model, probs, votes) \<in> set results. length probs = length ss"
    "tally e results = Inr e'"
  shows "wf_frame e' \<and>
         getitem e' ''Survived''
           = Inr (map (\<lambda>i. Int64 (wrap64 (ss ! i +
                   (\<Sum>(model, probs, votes) \<leftarrow> results. int (nat votes) * probs ! i))))
                  [0..<length ss])"
  using assms
proof (induction results arbitrary: e ss)
  case Nil
  have "map (\<lambda>i. Int64 (wrap64 (ss ! i))) [0..<length ss] = map (\<lambda>s. Int64 (wrap64 s)) ss"
    by (rule nth_equalityI) simp_all
  with Nil show ?case
    by simp
next
  case (Cons r results)
  obtain model probs votes where r: "r = (model, probs, votes)"
    by (cases r) auto
  let ?ss1 = "map (\<lambda>(s, p). s + int (nat votes) * p) (zip ss probs)"
  have len: "length probs = length ss"
    using Cons.prems(3) r by simp
  from Cons.prems(4) obtain e1 where
    a: "add_votes e probs (nat votes) = Inr e1" and t: "tally e1 results = Inr e'"
    unfolding r by (auto simp: and_then_eq_Inr)
  have e1: "wf_frame e1" "getitem e1 ''Survived'' = Inr (map (\<lambda>s. Int64 (wrap64 s)) ?ss1)"
    using add_votes_sums [OF Cons.prems(1,2) len a] by simp_all
  have len1: "length ?ss1 = length ss"
    using len by simp
  have rest: "\<forall>(model, probs, votes) \<in> set results. length probs = length ?ss1"
    using Cons.prems(3) len1 by simp
  have "map (\<lambda>i. Int64 (wrap64 (?ss1 ! i +
            (\<Sum>(model, probs, votes) \<leftarrow> results. int (nat votes) * probs ! i))))
          [0..<length ?ss1]
      = map (\<lambda>i. Int64 (wrap64 (ss ! i +
            (\<Sum>(model, probs, votes) \<leftarrow> r # results. int (nat votes) * probs ! i))))
          [0..<length ss]"
    unfolding len1 using len by (intro map_cong refl) (simp add: r algebra_simps)
  with Cons.IH [OF e1 rest t] show ?case
    by simp
qed

lemma traverse_gt_ints:
  "traverse (\<lambda>c. gt_num c 0) (map (\<lambda>i. Int64 (f i)) xs) = Inr (map (\<lambda>i. 0 < f i) xs)"
  by (induction xs) simp_all

lemma majority_vote_column:
  assumes run: "majority_vote_ensemble lib fs name models_votes train outcomes to_predict
                  = Inr (ms, voted)"
    and tr: "traverse (fit_predict lib train outcomes to_predict) models_votes = Inr model_results"
    and rd: "fs ''data/test.csv'' = Some test_csv"
    and lens: "\<forall>(model, probs, votes) \<in> set model_results. length probs = length (rows test_csv)"
  shows "\<exists>f. voted name = Some f \<and>
           getitem f ''Survived''
             = Inr (map (\<lambda>i. Int64 (weighted_vote model_results i)) [0..<length (rows test_csv)])"
proof -
  let ?n = "length (rows test_csv)"
  from run tr rd obtain ids e0 e1 survived positive ensemble where
    sel: "select test_csv [''PassengerId''] = Inr ids"
    and a0: "assign ids ''Survived'' (replicate (length (rows ids)) (Int64 0)) = Inr e0"
    and ta: "tally e0 model_results = Inr e1"
    and sv: "getitem e1 ''Survived'' = Inr survived"
    and pos: "traverse (\<lambda>c. gt_num c 0) survived = Inr positive"
    and a1: "assign e1 ''Survived'' (np_where positive 1 0) = Inr ensemble"
    and v: "voted = fs(name \<mapsto> ensemble)"
    unfolding majority_vote_ensemble_def assign_scalar_def
    by (auto simp: and_then_eq_Inr read_csv_def to_csv_def)
  have n: "length (rows ids) = ?n"
    using select_one [OF sel] by simp
  have zeros: "replicate ?n (Int64 0) = map (\<lambda>s. Int64 (wrap64 s)) (replicate ?n 0)"
    by (simp add: wrap64_def)
  have e0: "wf_frame e0" "getitem e0 ''Survived'' = Inr (map (\<lambda>s. Int64 (wrap64 s)) (replicate ?n 0))"
    using ensemble_frame [OF sel a0] n zeros by simp_all
  have lens0: "\<forall>(model, probs, votes) \<in> set model_results. length probs = length (replicate ?n (0 :: int))"
    using lens by simp
  have e1: "wf_frame e1"
    "getitem e1 ''Survived''
       = Inr (map (\<lambda>i. Int64 (wrap64 (replicate ?n 0 ! i +
                (\<Sum>(model, probs, votes) \<leftarrow> model_results. int (nat votes) * probs ! i))))
              [0..<?n])"
    using tally_sums [OF e0 lens0 ta] by simp_all
  have "survived = map (\<lambda>i. Int64 (wrap64
           (\<Sum>(model, probs, votes) \<leftarrow> model_results. int (nat votes) * probs ! i))) [0..<?n]"
    using e1(2) sv by (simp cong: map_cong)
  then have "positive = map (\<lambda>i. 0 < wrap64
           (\<Sum>(model, probs, votes) \<leftarrow> model_results. int (nat votes) * probs ! i)) [0..<?n]"
    using pos by (simp add: traverse_gt_ints)
  then have "np_where positive 1 0 = map (\<lambda>i. Int64 (weighted_vote model_results i)) [0..<?n]"
    by (simp add: np_where_def weighted_vote_def)
  moreover have "getitem ensemble ''Survived'' = Inr (np_where positive 1 0)"
    using e1(1) a1 by (rule getitem_assign_same)
  ultimately show ?thesis
    using v by simp
qed

section \<open>Voting, blending and stacking\<close>




section \<open>Who computes the vote\<close>

text \<open>
  Claim C1, as the code has it.  \<^verbatim>\<open>vote_classifier\<close> and \<^verbatim>\<open>voting\<close> delegate the
  vote: what they produce is the prediction of the library's voting classifier, fitted
  on the training data.  \<^verbatim>\<open>majority_vote_ensemble\<close> does not: its outcome is the same
  whatever the library's voting classifier is, and, when every classifier predicts one
  label per record of the test file, the Survived column it writes is the weighted
  majority vote that it computes from the predictions of the classifiers.
\<close>

theorem voting_is_delegated_except_majority_vote:
  "(vote_classifier lib fs out named train y test w = Inr written \<longrightarrow>
      (\<exists>fitted predictions f.
         fit lib (VotingClassifier lib (map (\<lambda>(name, m). (Some name, m)) named) Hard None)
           (rows train) y = Inr fitted \<and>
         predict lib fitted (rows test) = Inr predictions \<and>
         written out = Some f \<and> getitem f ''Survived'' = Inr (map Int64 predictions))) \<and>
   (voting lib self v wts = Inr voted \<longrightarrow>
      (\<exists>estimators fitted.
         get_classifier lib self v wts = Inr (VotingClassifier lib estimators v wts) \<and>
         fit lib (VotingClassifier lib estimators v wts) (rows (train_x self)) (train_y self)
           = Inr fitted \<and>
         predict lib fitted (rows (test_x self)) = Inr (result voted))) \<and>
   majority_vote_ensemble (lib\<lparr>VotingClassifier := other\<rparr>) fs name models_votes train outcomes to_predict
     = majority_vote_ensemble lib fs name models_votes train outcomes to_predict \<and>
   (majority_vote_ensemble lib fs name models_votes train outcomes to_predict = Inr (ms, tallied) \<and>
    traverse (fit_predict lib train outcomes to_predict) models_votes = Inr model_results \<and>
    fs ''data/test.csv'' = Some test_csv \<and>
    (\<forall>(model, probs, votes) \<in> set model_results. length probs = length (rows test_csv)) \<longrightarrow>
      (\<exists>f. tallied name = Some f \<and>
         getitem f ''Survived''
           = Inr (map (\<lambda>i. Int64 (weighted_vote model_results i)) [0..<length (rows test_csv)])))"
proof (intro conjI impI)
  assume a: "vote_classifier lib fs out named train y test w = Inr written"
  from vote_classifier_Inr [OF a] obtain fitted test_csv ids predictions ensemble where
    f: "fit lib (VotingClassifier lib (map (\<lambda>(name, m). (Some name, m)) named) Hard None)
       (rows train) y = Inr fitted"
    and sel: "select test_csv [''PassengerId''] = Inr ids"
    and p: "predict lib fitted (rows test) = Inr predictions"
    and asg: "assign ids ''Survived'' (map Int64 predictions) = Inr ensemble"
    and w: "written = fs(out \<mapsto> ensemble)"
    by blast
  from ensemble_frame [OF sel asg] f p w
  show "\<exists>fitted predictions f.
         fit lib (VotingClassifier lib (map (\<lambda>(name, m). (Some name, m)) named) Hard None)
           (rows train) y = Inr fitted \<and>
         predict lib fitted (rows test) = Inr predictions \<and>
         written out = Some f \<and> getitem f ''Survived'' = Inr (map Int64 predictions)"
    by auto
next
  assume a: "voting lib self v wts = Inr voted"
  from voting_Inr [OF a] obtain vc fitted where
    g: "get_classifier lib self v wts = Inr vc"
    and f: "fit lib vc (rows (train_x self)) (train_y self) = Inr fitted"
    and p: "predict lib fitted (rows (test_x self)) = Inr (result voted)"
    by blast
  from g obtain estimators where "vc = VotingClassifier lib estimators v wts"
    unfolding get_classifier_def by (auto simp: and_then_eq_Inr)
  with g f p
  show "\<exists>estimators fitted.
         get_classifier lib self v wts = Inr (VotingClassifier lib estimators v wts) \<and>
         fit lib (VotingClassifier lib estimators v wts) (rows (train_x self)) (train_y self)
           = Inr fitted \<and>
         predict lib fitted (rows (test_x self)) = Inr (result voted)"
    by auto
next
  show "majority_vote_ensemble (lib\<lparr>VotingClassifier := other\<rparr>) fs name models_votes train outcomes to_predict
     = majority_vote_ensemble lib fs name models_votes train outcomes to_predict"
  proof -
    have "fit_predict (lib\<lparr>VotingClassifier := other\<rparr>) train outcomes to_predict
        = fit_predict lib train outcomes to_predict"
      by (rule ext) (simp add: fit_predict_def)
    then show ?thesis
      by (simp add: majority_vote_ensemble_def)
  qed
next
  assume a: "majority_vote_ensemble lib fs name models_votes train outcomes to_predict = Inr (ms, tallied) \<and>
    traverse (fit_predict lib train outcomes to_predict) models_votes = Inr model_results \<and>
    fs ''data/test.csv'' = Some test_csv \<and>
    (\<forall>(model, probs, votes) \<in> set model_results. length probs = length (rows test_csv))"
  then show "\<exists>f. tallied name = Some f \<and>
         getitem f ''Survived''
           = Inr (map (\<lambda>i. Int64 (weighted_vote model_results i)) [0..<length (rows test_csv)])"
    using majority_vote_column [of lib fs name models_votes train outcomes to_predict ms tallied
        model_results test_csv]
    by blast
qed

lemma vote_classifier_runs:
  "\<exists>written. vote_classifier toy_sklearn disk ''out.csv'' named_models train_features
      train_outcomes test_features (Some [3, 1, 1]) = Inr written"
proof -
  have "(case vote_classifier toy_sklearn disk ''out.csv'' named_models train_features
      train_outcomes test_features (Some [3, 1, 1]) of Inl e \<Rightarrow> None | Inr fs \<Rightarrow> fs ''out.csv'')
    = Some (submission [0, 0, 0])"
    by code_simp
  then show ?thesis
    by (cases "vote_classifier toy_sklearn disk ''out.csv'' named_models train_features
      train_outcomes test_features (Some [3, 1, 1])") auto
qed

lemma majority_vote_runs:
  "\<exists>ms voted. majority_vote_ensemble toy_sklearn disk ''out.csv'' weighted_models train_features
      train_outcomes test_features = Inr (ms, voted)"
proof -
  have "(case majority_vote_ensemble toy_sklearn disk ''out.csv'' weighted_models train_features
      train_outcomes test_features of Inl e \<Rightarrow> None | Inr (ms, fs) \<Rightarrow> fs ''out.csv'')
     = Some (submission [0, 1, 0])"
    by code_simp
  then show ?thesis
    by (cases "majority_vote_ensemble toy_sklearn disk ''out.csv'' weighted_models train_features
      train_outcomes test_features") auto
qed

lemma voting_runs: "voting toy_sklearn crew Hard None = Inr (crew\<lparr>result := [0, 0, 0]\<rparr>)"
  by code_simp

theorem voting_is_delegated_except_majority_vote_witness:
  "(\<exists>written.
      vote_classifier toy_sklearn disk ''out.csv'' named_models train_features
        train_outcomes test_features (Some [3, 1, 1]) = Inr written \<and>
      (\<exists>fitted predictions f.
         fit toy_sklearn
           (VotingClassifier toy_sklearn (map (\<lambda>(name, m). (Some name, m)) named_models) Hard None)
           (rows train_features) train_outcomes = Inr fitted \<and>
         predict toy_sklearn fitted (rows test_features) = Inr predictions \<and>
         written ''out.csv'' = Some f \<and> getitem f ''Survived'' = Inr (map Int64 predictions))) \<and>
   voting toy_sklearn crew Hard None = Inr (crew\<lparr>result := [0, 0, 0]\<rparr>) \<and>
   (\<exists>estimators fitted.
      get_classifier toy_sklearn crew Hard None
        = Inr (VotingClassifier toy_sklearn estimators Hard None) \<and>
      fit toy_sklearn (VotingClassifier toy_sklearn estimators Hard None)
        (rows (train_x crew)) (train_y crew) = Inr fitted \<and>
      predict toy_sklearn fitted (rows (test_x crew)) = Inr (result (crew\<lparr>result := [0, 0, 0]\<rparr>))) \<and>
   traverse (fit_predict toy_sklearn train_features train_outcomes test_features) weighted_models
     = Inr [(women, [- 1, 1, - 1], 3), (not_third_class, [- 1, - 1, 1], 1),
            (Constant 0, [- 1, - 1, - 1], 1)] \<and>
   (\<exists>ms tallied.
      majority_vote_ensemble toy_sklearn disk ''out.csv'' weighted_models train_features
        train_outcomes test_features = Inr (ms, tallied) \<and>
      (\<exists>f. tallied ''out.csv'' = Some f \<and>
         getitem f ''Survived''
           = Inr (map (\<lambda>i. Int64 (weighted_vote
                    [(women, [- 1, 1, - 1], 3), (not_third_class, [- 1, - 1, 1], 1),
                     (Constant 0, [- 1, - 1, - 1], 1)] i)) [0..<3])))"
proof -
  from vote_classifier_runs obtain written where
    w: "vote_classifier toy_sklearn disk ''out.csv'' named_models train_features
      train_outcomes test_features (Some [3, 1, 1]) = Inr written"
    by blast
  from majority_vote_runs obtain ms tallied where
    m: "majority_vote_ensemble toy_sklearn disk ''out.csv'' weighted_models train_features
        train_outcomes test_features = Inr (ms, tallied)"
    by blast
  have tr: "traverse (fit_predict toy_sklearn train_features train_outcomes test_features)
      weighted_models
     = Inr [(women, [- 1, 1, - 1], 3), (not_third_class, [- 1, - 1, 1], 1),
            (Constant 0, [- 1, - 1, - 1], 1)]"
    by code_simp
  have d: "disk ''data/test.csv'' = Some test_file" "length (rows test_file) = 3"
    by (simp_all add: disk_def test_file_def)
  note delegated = voting_is_delegated_except_majority_vote [of toy_sklearn disk "''out.csv''"
      named_models train_features train_outcomes test_features "Some [3, 1, 1]" written
      crew Hard None "crew\<lparr>result := [0, 0, 0]\<rparr>" undefined "''out.csv''" weighted_models
      train_outcomes test_features ms tallied
      "[(women, [- 1, 1, - 1], 3), (not_third_class, [- 1, - 1, 1], 1),
        (Constant 0, [- 1, - 1, - 1], 1)]" test_file]
  have a: "\<exists>written.
      vote_classifier toy_sklearn disk ''out.csv'' named_models train_features
        train_outcomes test_features (Some [3, 1, 1]) = Inr written \<and>
      (\<exists>fitted predictions f.
         fit toy_sklearn
           (VotingClassifier toy_sklearn (map (\<lambda>(name, m). (Some name, m)) named_models) Hard None)
           (rows train_features) train_outcomes = Inr fitted \<and>
         predict toy_sklearn fitted (rows test_features) = Inr predictions \<and>
         written ''out.csv'' = Some f \<and> getitem f ''Survived'' = Inr (map Int64 predictions))"
    using delegated w by blast
  have b: "\<exists>estimators fitted.
      get_classifier toy_sklearn crew Hard None
        = Inr (VotingClassifier toy_sklearn estimators Hard None) \<and>
      fit toy_sklearn (VotingClassifier toy_sklearn estimators Hard None)
        (rows (train_x crew)) (train_y crew) = Inr fitted \<and>
      predict toy_sklearn fitted (rows (test_x crew)) = Inr (result (crew\<lparr>result := [0, 0, 0]\<rparr>))"
    using delegated voting_runs by blast
  have lens: "\<forall>(model, probs, votes) \<in> set [(women, [- 1, 1, - 1], 3),
      (not_third_class, [- 1, - 1, 1], 1), (Constant 0, [- 1, - 1, - 1 :: int], 1 :: int)].
      length probs = length (rows test_file)"
    using d(2) by simp
  have "\<exists>f. tallied ''out.csv'' = Some f \<and>
         getitem f ''Survived''
           = Inr (map (\<lambda>i. Int64 (weighted_vote
                    [(women, [- 1, 1, - 1], 3), (not_third_class, [- 1, - 1, 1], 1),
                     (Constant 0, [- 1, - 1, - 1], 1)] i)) [0..<length (rows test_file)])"
    using delegated m tr d(1) lens by blast
  then have c: "\<exists>ms tallied.
      majority_vote_ensemble toy_sklearn disk ''out.csv'' weighted_models train_features
        train_outcomes test_features = Inr (ms, tallied) \<and>
      (\<exists>f. tallied ''out.csv'' = Some f \<and>
         getitem f ''Survived''
           = Inr (map (\<lambda>i. Int64 (weighted_vote
                    [(women, [- 1, 1, - 1], 3), (not_third_class, [- 1, - 1, 1], 1),
                     (Constant 0, [- 1, - 1, - 1], 1)] i)) [0..<3]))"
    using m d(2) by auto
  from a voting_runs b tr c show ?thesis
    by blast
qed

text \<open>
  Claim C1, as stated, fails: with a library whose voting classifier cannot be fitted,
  \<^verbatim>\<open>majority_vote_ensemble\<close> still writes an ensemble prediction, the weighted
  majority of its three classifiers (the classifier with three votes outvotes the two
  others on the second record).
\<close>

theorem majority_vote_without_voting_classifier:
  "(case majority_vote_ensemble no_voting disk ''out.csv'' weighted_models train_features
      train_outcomes test_features of Inl e \<Rightarrow> None | Inr (ms, fs) \<Rightarrow> fs ''out.csv'')
     = Some (submission [0, 1, 0]) \<and>
   (\<forall>estimators kind weights X y.
      fit no_voting (VotingClassifier no_voting estimators kind weights) X y
        = Inl (LibraryError ''no voting classifier''))"
proof
  show "(case majority_vote_ensemble no_voting disk ''out.csv'' weighted_models train_features
      train_outcomes test_features of Inl e \<Rightarrow> None | Inr (ms, fs) \<Rightarrow> fs ''out.csv'')
     = Some (submission [0, 1, 0])"
    by code_simp
  show "\<forall>estimators kind weights X y.
      fit no_voting (VotingClassifier no_voting estimators kind weights) X y
        = Inl (LibraryError ''no voting classifier'')"
    by (simp add: no_voting_def toy_sklearn_def)
qed

section \<open>The values of the Survived column\<close>

text \<open>
  Claim C4, as the code has it.  Every value of the Survived column that
  \<^verbatim>\<open>majority_vote_ensemble\<close> writes is 0 or 1.  The Survived column that
  \<^verbatim>\<open>vote_classifier\<close> writes is the prediction of the library's voting classifier,
  unchanged: its values are 0 or 1 exactly when the predicted labels are.
\<close>

theorem survived_values:
  "(majority_vote_ensemble lib fs name models_votes train outcomes to_predict = Inr (ms, voted) \<longrightarrow>
      (\<exists>f survived. voted name = Some f \<and> getitem f ''Survived'' = Inr survived \<and>
         set survived \<subseteq> {Int64 0, Int64 1})) \<and>
   (vote_classifier lib fs out named train y test w = Inr written \<longrightarrow>
      (\<exists>f fitted predictions. written out = Some f \<and>
         fit lib (VotingClassifier lib (map (\<lambda>(name, m). (Some name, m)) named) Hard None)
           (rows train) y = Inr fitted \<and>
         predict lib fitted (rows test) = Inr predictions \<and>
         getitem f ''Survived'' = Inr (map Int64 predictions) \<and>
         (set predictions \<subseteq> {0, 1} \<longleftrightarrow> set (map Int64 predictions) \<subseteq> {Int64 0, Int64 1})))"
proof (intro conjI impI)
  assume a: "majority_vote_ensemble lib fs name models_votes train outcomes to_predict = Inr (ms, voted)"
  from majority_vote_ensemble_Inr [OF a] obtain ensemble positive where
    "voted = fs(name \<mapsto> ensemble)" "getitem ensemble ''Survived'' = Inr (np_where positive 1 0)"
    by blast
  then show "\<exists>f survived. voted name = Some f \<and> getitem f ''Survived'' = Inr survived \<and>
         set survived \<subseteq> {Int64 0, Int64 1}"
    using np_where_0_1 [of positive] by auto
next
  assume a: "vote_classifier lib fs out named train y test w = Inr written"
  from vote_classifier_Inr [OF a] obtain fitted test_csv ids predictions ensemble where
    f: "fit lib (VotingClassifier lib (map (\<lambda>(name, m). (Some name, m)) named) Hard None)
       (rows train) y = Inr fitted"
    and sel: "select test_csv [''PassengerId''] = Inr ids"
    and p: "predict lib fitted (rows test) = Inr predictions"
    and asg: "assign ids ''Survived'' (map Int64 predictions) = Inr ensemble"
    and w: "written = fs(out \<mapsto> ensemble)"
    by blast
  have "set predictions \<subseteq> {0, 1} \<longleftrightarrow> set (map Int64 predictions) \<subseteq> {Int64 0, Int64 1}"
    by auto
  with ensemble_frame [OF sel asg] f p w
  show "\<exists>f fitted predictions. written out = Some f \<and>
         fit lib (VotingClassifier lib (map (\<lambda>(name, m). (Some name, m)) named) Hard None)
           (rows train) y = Inr fitted \<and>
         predict lib fitted (rows test) = Inr predictions \<and>
         getitem f ''Survived'' = Inr (map Int64 predictions) \<and>
         (set predictions \<subseteq> {0, 1} \<longleftrightarrow> set (map Int64 predictions) \<subseteq> {Int64 0, Int64 1})"
    by auto
qed

theorem survived_values_witness:
  "(\<exists>ms voted.
      majority_vote_ensemble toy_sklearn disk ''out.csv'' weighted_models train_features
        train_outcomes test_features = Inr (ms, voted) \<and>
      (\<exists>f survived. voted ''out.csv'' = Some f \<and> getitem f ''Survived'' = Inr survived \<and>
         set survived \<subseteq> {Int64 0, Int64 1})) \<and>
   (\<exists>written.
      vote_classifier toy_sklearn disk ''out.csv'' named_models train_features
        train_outcomes test_features (Some [3, 1, 1]) = Inr written \<and>
      (\<exists>f fitted predictions. written ''out.csv'' = Some f \<and>
         predict toy_sklearn fitted (rows test_features) = Inr predictions \<and>
         getitem f ''Survived'' = Inr (map Int64 predictions)))"
proof -
  from majority_vote_runs obtain ms voted where
    m: "majority_vote_ensemble toy_sklearn disk ''out.csv'' weighted_models train_features
        train_outcomes test_features = Inr (ms, voted)"
    by blast
  from vote_classifier_runs obtain written where
    w: "vote_classifier toy_sklearn disk ''out.csv'' named_models train_features
      train_outcomes test_features (Some [3, 1, 1]) = Inr written"
    by blast
  from survived_values [of toy_sklearn disk "''out.csv''" weighted_models train_features
      train_outcomes test_features ms voted "''out.csv''" named_models train_outcomes
      test_features "Some [3, 1, 1]" written] m w
  show ?thesis
    by blast
qed

text \<open>
  Claim C4, as stated, fails: trained on outcomes among which 2 is the most frequent,
  the voting classifier predicts 2, and \<^verbatim>\<open>vote_classifier\<close> writes it.
\<close>

theorem vote_classifier_writes_other_label:
  "(case vote_classifier toy_sklearn disk ''out.csv'' [(''mf'', MostFrequent)] train_features
      [2, 2, 0, 2] test_features None of Inl e \<Rightarrow> None | Inr fs \<Rightarrow> fs ''out.csv'')
     = Some (submission [2, 2, 2]) \<and>
   getitem (submission [2, 2, 2]) ''Survived'' = Inr [Int64 2, Int64 2, Int64 2]"
  by code_simp

section \<open>The pipeline's last step\<close>







section \<open>Two runs of the age fill\<close>

lemma fill_missing_length: "length (fill_missing col vs) = length col"
  by (induction col vs rule: fill_missing.induct) auto

lemma fill_missing_keeps:
  "i < length col \<Longrightarrow> \<not> isnull (col ! i) \<Longrightarrow> fill_missing col vs ! i = col ! i"
proof (induction col vs arbitrary: i rule: fill_missing.induct)
  case (1 vs)
  then show ?case by simp
next
  case (2 c cs)
  then show ?case by (cases i) auto
next
  case (3 c cs v vs)
  then show ?case by (cases i) auto
qed

lemma set_missing_Inr:
  assumes "set_missing col vs = Inr col'"
  shows "length col' = length col \<and>
         (\<forall>i < length col. \<not> isnull (col ! i) \<longrightarrow> col' ! i = col ! i)"
  using assms
  by (auto simp: set_missing_def fill_missing_length fill_missing_keeps split: if_splits)

lemma age_after_fill:
  assumes wf: "wf_frame f"
    and age: "getitem f ''Age'' = Inr age"
    and filled: "set_missing age vs = Inr filled"
    and ints: "traverse astype_int filled = Inr ints"
    and asg: "assign f ''Age'' ints = Inr f'"
  shows "header f' = header f" "length (rows f') = length (rows f)"
    "getitem f' ''Age'' = Inr ints" "c \<noteq> ''Age'' \<Longrightarrow> getitem f' c = getitem f c"
    "length ints = length age"
    "i < length age \<Longrightarrow> \<not> isnull (age ! i) \<Longrightarrow> astype_int (age ! i) = Inr (ints ! i)"
proof -
  have in_header: "''Age'' \<in> set (header f)"
    using age position_None [of "header f" "''Age''"]
    by (auto simp: getitem_def split: option.splits)
  show "header f' = header f"
    using assign_old_header [OF asg in_header] .
  show len: "length ints = length age"
    using traverse_Inr_length [OF ints] set_missing_Inr [OF filled] by simp
  then have len_rows: "length ints = length (rows f)"
    using getitem_length [OF age] by simp
  show "length (rows f') = length (rows f)"
    using assign_rows_length [OF asg] len_rows by simp
  show "getitem f' ''Age'' = Inr ints"
    using wf asg by (rule getitem_assign_same)
  show "getitem f' c = getitem f c" if "c \<noteq> ''Age''"
    using getitem_assign_other [OF wf asg that len_rows] .
  show "astype_int (age ! i) = Inr (ints ! i)" if "i < length age" "\<not> isnull (age ! i)"
  proof -
    have "filled ! i = age ! i" "i < length filled"
      using set_missing_Inr [OF filled] that by auto
    then show ?thesis
      using traverse_Inr_nth [OF ints, of i] by simp
  qed
qed

lemma fill_ages_Inr:
  assumes "fill_ages np g titanic_df test_df = Inr (t', s', g2)"
  shows "\<exists>age_t age_s vs_t vs_s filled_t filled_s ints_t ints_s.
     getitem titanic_df ''Age'' = Inr age_t \<and> getitem test_df ''Age'' = Inr age_s \<and>
     set_missing age_t vs_t = Inr filled_t \<and> set_missing age_s vs_s = Inr filled_s \<and>
     traverse astype_int filled_t = Inr ints_t \<and> traverse astype_int filled_s = Inr ints_s \<and>
     assign titanic_df ''Age'' ints_t = Inr t' \<and> assign test_df ''Age'' ints_s = Inr s'"
  using assms unfolding fill_ages_def
  by (auto simp: and_then_eq_Inr) blast

text \<open>
  Claim C2, as the code has it.  Two runs on the same frames, whatever the states of the
  random number generator, give frames with the same columns and the same number of
  rows, equal in every column but Age, and equal in Age at every record whose age is
  not missing in the input: the runs can differ in the ages that the script draws, and
  nowhere else.  Two runs of \<^verbatim>\<open>impute\<close> agree on the columns Train and Survived,
  whatever the imputation library drew.
\<close>

theorem two_runs_differ_in_filled_cells_only:
  "(wf_frame titanic_df \<and> wf_frame test_df \<and>
    fill_ages np g titanic_df test_df = Inr (t1, s1, h1) \<and>
    fill_ages np g' titanic_df test_df = Inr (t2, s2, h2) \<longrightarrow>
      header t1 = header t2 \<and> length (rows t1) = length (rows t2) \<and>
      header s1 = header s2 \<and> length (rows s1) = length (rows s2) \<and>
      (\<forall>c. c \<noteq> ''Age'' \<longrightarrow> getitem t1 c = getitem t2 c \<and> getitem s1 c = getitem s2 c) \<and>
      (\<exists>age a1 a2. getitem titanic_df ''Age'' = Inr age \<and>
         getitem t1 ''Age'' = Inr a1 \<and> getitem t2 ''Age'' = Inr a2 \<and>
         length a1 = length age \<and> length a2 = length age \<and>
         (\<forall>i < length age. \<not> isnull (age ! i) \<longrightarrow> a1 ! i = a2 ! i)) \<and>
      (\<exists>age a1 a2. getitem test_df ''Age'' = Inr age \<and>
         getitem s1 ''Age'' = Inr a1 \<and> getitem s2 ''Age'' = Inr a2 \<and>
         length a1 = length age \<and> length a2 = length age \<and>
         (\<forall>i < length age. \<not> isnull (age ! i) \<longrightarrow> a1 ! i = a2 ! i))) \<and>
   (impute MICE_complete m data = Inr (r1, m1) \<and>
    impute MICE_complete m' data = Inr (r2, m2) \<longrightarrow>
      getitem r1 ''Train'' = getitem r2 ''Train'' \<and>
      getitem r1 ''Survived'' = getitem r2 ''Survived'')"
proof (intro conjI impI)
  assume a: "wf_frame titanic_df \<and> wf_frame test_df \<and>
    fill_ages np g titanic_df test_df = Inr (t1, s1, h1) \<and>
    fill_ages np g' titanic_df test_df = Inr (t2, s2, h2)"
  then have wf: "wf_frame titanic_df" "wf_frame test_df"
    by simp_all
  from a fill_ages_Inr [of np g titanic_df test_df t1 s1 h1]
  obtain age_t age_s vt vs ft fs it "is" where
    r1: "getitem titanic_df ''Age'' = Inr age_t" "getitem test_df ''Age'' = Inr age_s"
      "set_missing age_t vt = Inr ft" "set_missing age_s vs = Inr fs"
      "traverse astype_int ft = Inr it" "traverse astype_int fs = Inr is"
      "assign titanic_df ''Age'' it = Inr t1" "assign test_df ''Age'' is = Inr s1"
    by blast
  from a fill_ages_Inr [of np g' titanic_df test_df t2 s2 h2] r1(1,2)
  obtain vt' vs' ft' fs' it' is' where
    r2: "set_missing age_t vt' = Inr ft'" "set_missing age_s vs' = Inr fs'"
      "traverse astype_int ft' = Inr it'" "traverse astype_int fs' = Inr is'"
      "assign titanic_df ''Age'' it' = Inr t2" "assign test_df ''Age'' is' = Inr s2"
    by auto
  note t1 = age_after_fill [OF wf(1) r1(1) r1(3) r1(5) r1(7)]
  note t2 = age_after_fill [OF wf(1) r1(1) r2(1) r2(3) r2(5)]
  note s1 = age_after_fill [OF wf(2) r1(2) r1(4) r1(6) r1(8)]
  note s2 = age_after_fill [OF wf(2) r1(2) r2(2) r2(4) r2(6)]
  show "header t1 = header t2" "length (rows t1) = length (rows t2)"
    "header s1 = header s2" "length (rows s1) = length (rows s2)"
    using t1(1,2) t2(1,2) s1(1,2) s2(1,2) by simp_all
  show "\<forall>c. c \<noteq> ''Age'' \<longrightarrow> getitem t1 c = getitem t2 c \<and> getitem s1 c = getitem s2 c"
    using t1(4) t2(4) s1(4) s2(4) by simp
  have "\<forall>i < length age_t. \<not> isnull (age_t ! i) \<longrightarrow> it ! i = it' ! i"
    using t1(6) t2(6) by (metis sum.inject(2))
  then show "\<exists>age a1 a2. getitem titanic_df ''Age'' = Inr age \<and>
         getitem t1 ''Age'' = Inr a1 \<and> getitem t2 ''Age'' = Inr a2 \<and>
         length a1 = length age \<and> length a2 = length age \<and>
         (\<forall>i < length age. \<not> isnull (age ! i) \<longrightarrow> a1 ! i = a2 ! i)"
    using r1(1) t1(3,5) t2(3,5) by blast
  have "\<forall>i < length age_s. \<not> isnull (age_s ! i) \<longrightarrow> is ! i = is' ! i"
    using s1(6) s2(6) by (metis sum.inject(2))
  then show "\<exists>age a1 a2. getitem test_df ''Age'' = Inr age \<and>
         getitem s1 ''Age'' = Inr a1 \<and> getitem s2 ''Age'' = Inr a2 \<and>
         length a1 = length age \<and> length a2 = length age \<and>
         (\<forall>i < length age. \<not> isnull (age ! i) \<longrightarrow> a1 ! i = a2 ! i)"
    using r1(2) s1(3,5) s2(3,5) by blast
next
  assume a: "impute MICE_complete m data = Inr (r1, m1) \<and>
    impute MICE_complete m' data = Inr (r2, m2)"
  then show "getitem r1 ''Train'' = getitem r2 ''Train''"
    using impute_Inr [of MICE_complete m data r1 m1] impute_Inr [of MICE_complete m' data r2 m2]
    by simp
  from a show "getitem r1 ''Survived'' = getitem r2 ''Survived''"
    using impute_Inr [of MICE_complete m data r1 m1] impute_Inr [of MICE_complete m' data r2 m2]
    by simp
qed

lemma run_draw_2:
  "fill_ages replay [2] titanic_ages test_ages = Inr (titanic_filled 2, test_filled, [])"
  by code_simp

lemma run_draw_3:
  "fill_ages replay [3] titanic_ages test_ages = Inr (titanic_filled 3, test_filled, [])"
  by code_simp

theorem two_runs_differ_in_filled_cells_only_witness:
  "wf_frame titanic_ages \<and> wf_frame test_ages \<and>
   fill_ages replay [2] titanic_ages test_ages = Inr (titanic_filled 2, test_filled, []) \<and>
   fill_ages replay [3] titanic_ages test_ages = Inr (titanic_filled 3, test_filled, []) \<and>
   header (titanic_filled 2) = header (titanic_filled 3) \<and>
   length (rows (titanic_filled 2)) = length (rows (titanic_filled 3)) \<and>
   getitem (titanic_filled 2) ''Survived'' = getitem (titanic_filled 3) ''Survived'' \<and>
   impute zero_imputer () combined = Inr (combined_filled, ()) \<and>
   getitem combined_filled ''Train'' = getitem combined_filled ''Train''"
proof -
  have wf: "wf_frame titanic_ages" "wf_frame test_ages"
    by (simp_all add: wf_frame_def titanic_ages_def test_ages_def)
  have imp: "impute zero_imputer () combined = Inr (combined_filled, ())"
    by code_simp
  from two_runs_differ_in_filled_cells_only [of titanic_ages test_ages replay "[2]"
      "titanic_filled 2" test_filled "[]" "[3]" "titanic_filled 3" test_filled "[]"
      zero_imputer "()" combined combined_filled "()" "()" combined_filled "()"]
    wf run_draw_2 run_draw_3 imp
  show ?thesis
    by simp
qed

text \<open>
  Claim C2, as stated, fails: the script does not seed the generator, and two runs on
  the same frames that draw 2 and 3 for the missing age leave different frames.
\<close>

theorem unseeded_draws_change_the_frame:
  "fill_ages replay [2] titanic_ages test_ages = Inr (titanic_filled 2, test_filled, []) \<and>
   fill_ages replay [3] titanic_ages test_ages = Inr (titanic_filled 3, test_filled, []) \<and>
   titanic_filled 2 \<noteq> titanic_filled 3 \<and>
   fill_ages replay [2] titanic_ages test_ages \<noteq> fill_ages replay [3] titanic_ages test_ages"
proof -
  have ne: "titanic_filled 2 \<noteq> titanic_filled 3"
    by (simp add: titanic_filled_def)
  with run_draw_2 run_draw_3 show ?thesis
    by simp
qed

end
